theory Spec2Isabelle
  imports Complex_Main
begin

section \<open>Shared vocabulary: Python exceptions\<close>

text \<open>The built-in exceptions the modelled code can run into.\<close>

datatype builtin_exc =
    IndexError | KeyError | AttributeError | TypeError | ValueError
  | FileNotFoundError | YAMLError
  | OtherError \<comment> \<open>a built-in exception whose kind the model does not determine\<close>

section \<open>Trial definitions of \<^verbatim>\<open>generate_artificial_data\<close> (tests/misc.py)\<close>

text \<open>
  \<^verbatim>\<open>t = np.arange(0, 3, dt, dtype="float32") - 1.0\<close> with \<^verbatim>\<open>dt = 0.001\<close>
  has 3000 samples; \<^verbatim>\<open>t.size\<close> is the only thing the trial definition uses of it.
  All sample numbers stay far below the range where a float32 stops being an exact
  integer, so they are modelled as integers.
\<close>

definition t_size :: int where
  "t_size = 3000"

text \<open>\<^verbatim>\<open>shift = (-1)**(not overlapping)\<close>\<close>

definition shift :: "bool \<Rightarrow> int" where
  "shift overlapping = (- 1) ^ (if \<not> overlapping then 1 else 0)"

text \<open>
  \<^verbatim>\<open>equiOffset = 0; if overlapping: equiOffset = 100\<close> (only bound when
  \<^verbatim>\<open>equidistant\<close> holds).
\<close>

definition equiOffset :: "bool \<Rightarrow> int" where
  "equiOffset overlapping = (if overlapping then 100 else 0)"

text \<open>
  The by-trial offsets: a constant array when \<^verbatim>\<open>equidistant\<close>, otherwise the
  draws of \<^verbatim>\<open>rng.integers(low=int(0.1*t.size), high=int(0.2*t.size), size=(nTrials,))\<close>.
  The generator is a parameter of the model: \<open>draw i\<close> is the i-th number drawn.
\<close>

definition rng_low :: int where
  "rng_low = 300"

definition rng_high :: int where
  "rng_high = 600"

definition offsets :: "bool \<Rightarrow> bool \<Rightarrow> (nat \<Rightarrow> int) \<Rightarrow> nat \<Rightarrow> int" where
  "offsets equidistant overlapping draw i =
     (if equidistant then equiOffset overlapping else draw i)"

type_synonym trialrow = "int \<times> int \<times> int"

text \<open>
  The loop
  \<^verbatim>\<open>for iTrial in range(nTrials):
      trialdefinition[iTrial, :] = np.array([iTrial*t.size - shift*offsets[iTrial],
                                             (iTrial + 1)*t.size + shift*offsets[iTrial],
                                             1000])\<close>
\<close>

definition trial_row :: "bool \<Rightarrow> (nat \<Rightarrow> int) \<Rightarrow> nat \<Rightarrow> trialrow" where
  "trial_row overlapping offs iTrial =
     (int iTrial * t_size - shift overlapping * offs iTrial,
      (int iTrial + 1) * t_size + shift overlapping * offs iTrial,
      1000)"

definition fill_rows :: "nat \<Rightarrow> bool \<Rightarrow> (nat \<Rightarrow> int) \<Rightarrow> trialrow list" where
  "fill_rows nTrials overlapping offs = map (trial_row overlapping offs) [0..<nTrials]"

text \<open>In-place updates of single entries of a row; the row index is checked by the caller.\<close>

definition add_start_stop :: "int \<Rightarrow> trialrow \<Rightarrow> trialrow" where
  "add_start_stop d r = (case r of (start, stop, off) \<Rightarrow> (start + d, stop + d, off))"

definition set_start :: "int \<Rightarrow> trialrow \<Rightarrow> trialrow" where
  "set_start v r = (case r of (start, stop, off) \<Rightarrow> (v, stop, off))"

definition set_stop :: "int \<Rightarrow> trialrow \<Rightarrow> trialrow" where
  "set_stop v r = (case r of (start, stop, off) \<Rightarrow> (start, v, off))"

text \<open>
  Lines 121 to 143: the table handed to \<^verbatim>\<open>out.definetrial\<close>. Row \<^verbatim>\<open>0\<close> and row
  \<^verbatim>\<open>-1\<close> of an array without rows raise \<^verbatim>\<open>IndexError\<close>.
  \<^verbatim>\<open>
    if equidistant:
        trialdefinition[0, :2] += equiOffset
        trialdefinition[-1, :2] -= equiOffset
    else:
        trialdefinition[0, 0] = 0
        trialdefinition[-1, 1] = nTrials*t.size
  \<close>
\<close>

definition trialdefinition :: "nat \<Rightarrow> bool \<Rightarrow> bool \<Rightarrow> (nat \<Rightarrow> int) \<Rightarrow> builtin_exc + trialrow list" where
  "trialdefinition nTrials equidistant overlapping draw =
     (let td = fill_rows nTrials overlapping (offsets equidistant overlapping draw) in
      if nTrials = 0 then Inl IndexError
      else if equidistant then
        (let td1 = td[0 := add_start_stop (equiOffset overlapping) (td ! 0)];
             td2 = td1[nTrials - 1 := add_start_stop (- equiOffset overlapping) (td1 ! (nTrials - 1))]
         in Inr td2)
      else
        (let td1 = td[0 := set_start 0 (td ! 0)];
             td2 = td1[nTrials - 1 := set_stop (int nTrials * t_size) (td1 ! (nTrials - 1))]
         in Inr td2))"

text \<open>The property the table is meant to have: every row lies within the data.\<close>

definition row_in_bounds :: "nat \<Rightarrow> trialrow \<Rightarrow> bool" where
  "row_in_bounds nTrials r =
     (case r of (start, stop, off) \<Rightarrow> 0 \<le> start \<and> start < stop \<and> stop \<le> int nTrials * t_size)"

section \<open>\<^verbatim>\<open>conda2pip.py\<close>\<close>

subsection \<open>Strings\<close>

text \<open>\<^verbatim>\<open>s.startswith(p)\<close>, \<^verbatim>\<open>k in s\<close>, \<^verbatim>\<open>s.lower()\<close> (ASCII) and \<^verbatim>\<open>s.replace(old, new)\<close>.\<close>

definition startswith :: "string \<Rightarrow> string \<Rightarrow> bool" where
  "startswith s p = (take (length p) s = p)"

fun contains :: "string \<Rightarrow> string \<Rightarrow> bool" where
  "contains [] k = (k = [])"
| "contains (c # cs) k = (startswith (c # cs) k \<or> contains cs k)"

definition lower_char :: "char \<Rightarrow> char" where
  "lower_char c =
     (let n = (of_char c :: nat) in if 65 \<le> n \<and> n \<le> 90 then char_of (n + 32) else c)"

definition lower :: "string \<Rightarrow> string" where
  "lower s = map lower_char s"

text \<open>
  Left to right, non-overlapping: \<open>skip\<close> counts the characters of a matched
  occurrence still to be passed over. The pattern is never empty here.
\<close>

fun replace_from :: "string \<Rightarrow> string \<Rightarrow> nat \<Rightarrow> string \<Rightarrow> string" where
  "replace_from old new skip [] = []"
| "replace_from old new (Suc k) (c # cs) = replace_from old new k cs"
| "replace_from old new 0 (c # cs) =
     (if old \<noteq> [] \<and> startswith (c # cs) old
      then new @ replace_from old new (length old - 1) cs
      else c # replace_from old new 0 cs)"

definition str_replace :: "string \<Rightarrow> string \<Rightarrow> string \<Rightarrow> string" where
  "str_replace s old new = replace_from old new 0 s"

definition newline :: char where
  "newline = CHR 0x0A"

text \<open>\<^verbatim>\<open>"\n".join(xs)\<close>\<close>

fun join_lines :: "string list \<Rightarrow> string" where
  "join_lines [] = []"
| "join_lines [x] = x"
| "join_lines (x # y # ys) = x @ newline # join_lines (y # ys)"

text \<open>\<^verbatim>\<open>bs.index(True)\<close> where \<^verbatim>\<open>any(bs)\<close> has been checked: the first position that holds.\<close>

fun first_index :: "('a \<Rightarrow> bool) \<Rightarrow> 'a list \<Rightarrow> nat option" where
  "first_index P [] = None"
| "first_index P (x # xs) = (if P x then Some 0 else map_option Suc (first_index P xs))"

subsection \<open>The YAML object ruamel hands over\<close>

text \<open>
  A comment token carries its text and the line its end mark stands on. An entry of
  \<^verbatim>\<open>ymlSeq.ca.items[lineno]\<close> is \<^verbatim>\<open>None\<close>, a token, or a list of tokens.
  A sequence carries its entries, the comment table \<^verbatim>\<open>ca.items\<close> (a dictionary, in
  insertion order) and \<^verbatim>\<open>lc.data[0][0]\<close>, the line of its first entry, where it has one.
\<close>

datatype token = CommentToken (tok_value: string) (end_mark_line: int)

datatype slot = NoToken | OneToken token | TokenList "token option list"

datatype yaml =
    YStr string
  | YScalar \<comment> \<open>a scalar that is not a string: a number, a boolean, null\<close>
  | YMap "(string \<times> yaml) list"
  | YSeq "yaml list" "(nat \<times> slot list) list" "int option"

definition commentKeys :: "string list" where
  "commentKeys = [''test'', ''optional'', ''development'']"

definition pkgConvert :: "(string \<times> string) list" where
  "pkgConvert = [(''python-graphviz'', ''graphviz'')]"

subsection \<open>\<^verbatim>\<open>_process_comments\<close>\<close>

text \<open>
  \<^verbatim>\<open>[pkg.startswith(condaPkg) for pkg in ymlSeq]\<close> calls a string method on every
  entry: an entry that is not a string has none and raises \<^verbatim>\<open>AttributeError\<close>.
\<close>

fun all_strs :: "yaml list \<Rightarrow> string list option" where
  "all_strs [] = Some []"
| "all_strs (YStr s # ys) = map_option ((#) s) (all_strs ys)"
| "all_strs (_ # ys) = None"

text \<open>
  One round of the loop over \<^verbatim>\<open>pkgConvert.items()\<close>:
  \<^verbatim>\<open>
    pkgFound = [pkg.startswith(condaPkg) for pkg in ymlSeq]
    if any(pkgFound):
        pkgIdx = pkgFound.index(True)
        pkgEntry = ymlSeq[pkgIdx].replace(condaPkg, pipPkg)
        ymlSeq[pkgIdx] = pkgEntry
  \<close>
\<close>

definition convert_pkg :: "string list \<Rightarrow> string \<times> string \<Rightarrow> string list" where
  "convert_pkg pkgs cp =
     (case first_index (\<lambda>pkg. startswith pkg (fst cp)) pkgs of
        None \<Rightarrow> pkgs
      | Some pkgIdx \<Rightarrow> pkgs[pkgIdx := str_replace (pkgs ! pkgIdx) (fst cp) (snd cp)])"

text \<open>\<^verbatim>\<open>[t[0] if isinstance(t, list) else t for t in tokens]\<close>\<close>

fun slot_token :: "slot \<Rightarrow> builtin_exc + token option" where
  "slot_token NoToken = Inr None"
| "slot_token (OneToken t) = Inr (Some t)"
| "slot_token (TokenList []) = Inl IndexError"
| "slot_token (TokenList (t # ts)) = Inr t"

fun slot_tokens :: "slot list \<Rightarrow> builtin_exc + token option list" where
  "slot_tokens [] = Inr []"
| "slot_tokens (s # ss) =
     (case slot_token s of
        Inl e \<Rightarrow> Inl e
      | Inr t \<Rightarrow> (case slot_tokens ss of Inl e \<Rightarrow> Inl e | Inr ts \<Rightarrow> Inr (t # ts)))"

text \<open>
  \<^verbatim>\<open>any([keyword in token.value.lower() if token is not None else False
        for keyword in commentKeys])\<close>
\<close>

definition has_keyword :: "token option \<Rightarrow> bool" where
  "has_keyword token =
     (case token of
        None \<Rightarrow> False
      | Some t \<Rightarrow> list_ex (\<lambda>keyword. contains (lower (tok_value t)) keyword) commentKeys)"

text \<open>
  \<^verbatim>\<open>
    if lineno == 0:
        cutoff = max(0, token.end_mark.line - ymlSeq.lc.data[0][0] - 1)
    else:
        cutoff = lineno + 1
  \<close>
\<close>

definition cutoff_at :: "nat \<Rightarrow> token \<Rightarrow> int option \<Rightarrow> builtin_exc + nat" where
  "cutoff_at lineno t lc0 =
     (if lineno = 0 then
        (case lc0 of
           None \<Rightarrow> Inl KeyError
         | Some line0 \<Rightarrow> Inr (nat (max 0 (end_mark_line t - line0 - 1))))
      else Inr (lineno + 1))"

text \<open>The inner loop: the first token with a keyword sets \<^verbatim>\<open>cutoff\<close> and breaks.\<close>

fun scan_tokens :: "nat \<Rightarrow> int option \<Rightarrow> token option list \<Rightarrow> nat option \<Rightarrow> builtin_exc + nat option" where
  "scan_tokens lineno lc0 [] cutoff = Inr cutoff"
| "scan_tokens lineno lc0 (None # ts) cutoff = scan_tokens lineno lc0 ts cutoff"
| "scan_tokens lineno lc0 (Some t # ts) cutoff =
     (if has_keyword (Some t) then
        (case cutoff_at lineno t lc0 of Inl e \<Rightarrow> Inl e | Inr c \<Rightarrow> Inr (Some c))
      else scan_tokens lineno lc0 ts cutoff)"

text \<open>The outer loop over \<^verbatim>\<open>ymlSeq.ca.items.items()\<close>: it goes on after the inner break.\<close>

fun scan_comments :: "(nat \<times> slot list) list \<Rightarrow> int option \<Rightarrow> nat option \<Rightarrow> builtin_exc + nat option" where
  "scan_comments [] lc0 cutoff = Inr cutoff"
| "scan_comments ((lineno, tokens) # rest) lc0 cutoff =
     (case slot_tokens tokens of
        Inl e \<Rightarrow> Inl e
      | Inr ts \<Rightarrow>
          (case scan_tokens lineno lc0 ts cutoff of
             Inl e \<Rightarrow> Inl e
           | Inr cutoff' \<Rightarrow> scan_comments rest lc0 cutoff'))"

text \<open>
  \<^verbatim>\<open>_process_comments(ymlSeq)\<close>. \<^verbatim>\<open>pkgConvert\<close> has an entry, so the comprehension
  over the entries runs. A string in place of the sequence gets as far as
  \<^verbatim>\<open>ymlSeq.ca\<close>, a scalar cannot be iterated, and a mapping fails at one of the sequence
  operations.
  \<^verbatim>\<open>
    needed = ymlSeq[:cutoff]
    optional = []
    if cutoff is not None:
        optional = ymlSeq[cutoff:]
    return needed, optional
  \<close>
\<close>

fun process_comments :: "yaml \<Rightarrow> builtin_exc + (string list \<times> string list)" where
  "process_comments (YSeq entries ca lc0) =
     (case all_strs entries of
        None \<Rightarrow> Inl AttributeError
      | Some pkgs0 \<Rightarrow>
          (let pkgs = foldl convert_pkg pkgs0 pkgConvert in
           case scan_comments ca lc0 None of
             Inl e \<Rightarrow> Inl e
           | Inr None \<Rightarrow> Inr (pkgs, [])
           | Inr (Some cutoff) \<Rightarrow> Inr (take cutoff pkgs, drop cutoff pkgs)))"
| "process_comments (YStr s) = Inl AttributeError"
| "process_comments YScalar = Inl TypeError"
| "process_comments (YMap m) = Inl OtherError"

subsection \<open>\<^verbatim>\<open>conda2pip\<close>\<close>

fun is_str :: "yaml \<Rightarrow> bool" where
  "is_str (YStr s) = True"
| "is_str _ = False"

text \<open>
  \<^verbatim>\<open>
    pipIndex = None
    for index, key in enumerate(deps):
        if not isinstance(key, str):
            pipIndex = index
  \<close>
  The last entry that is not a string wins.
\<close>

fun find_pipIndex :: "nat \<Rightarrow> yaml list \<Rightarrow> nat option \<Rightarrow> nat option" where
  "find_pipIndex index [] pipIndex = pipIndex"
| "find_pipIndex index (key # rest) pipIndex =
     find_pipIndex (Suc index) rest (if \<not> is_str key then Some index else pipIndex)"

text \<open>
  \<^verbatim>\<open>deps.pop(pipIndex)\<close> on ruamel's sequence: the entry goes, its comment goes, and the
  comments of later entries move down by one (re-entered in ascending order).
\<close>

definition pop_comments :: "nat \<Rightarrow> (nat \<times> slot list) list \<Rightarrow> (nat \<times> slot list) list" where
  "pop_comments idx ca =
     filter (\<lambda>(k, v). k < idx) ca @
     map (\<lambda>(k, v). (k - 1, v)) (sort_key fst (filter (\<lambda>(k, v). idx < k) ca))"

text \<open>\<^verbatim>\<open>pipDeps["pip"]\<close>: a key of a mapping; a sequence or a scalar cannot be indexed by a string.\<close>

fun pip_section :: "yaml \<Rightarrow> builtin_exc + yaml" where
  "pip_section (YMap m) = (case map_of m ''pip'' of None \<Rightarrow> Inl KeyError | Some v \<Rightarrow> Inr v)"
| "pip_section _ = Inl TypeError"

text \<open>
  Lines 87 to 113: from the loaded object to the lists \<^verbatim>\<open>required\<close> and \<^verbatim>\<open>testing\<close>.
  \<^verbatim>\<open>if pipIndex:\<close> holds for an index other than 0 only.
\<close>

definition pip_lists :: "yaml list \<Rightarrow> (nat \<times> slot list) list \<Rightarrow> nat option
    \<Rightarrow> builtin_exc + ((string list \<times> string list) \<times> yaml list \<times> (nat \<times> slot list) list)" where
  "pip_lists entries ca pipIndex =
     (case pipIndex of
        None \<Rightarrow> Inr (([], []), entries, ca)
      | Some idx \<Rightarrow>
          if idx = 0 then Inr (([], []), entries, ca)
          else
            (case pip_section (entries ! idx) of
               Inl e \<Rightarrow> Inl e
             | Inr pipSeq \<Rightarrow>
                 (case process_comments pipSeq of
                    Inl e \<Rightarrow> Inl e
                  | Inr pipLists \<Rightarrow>
                      Inr (pipLists, take idx entries @ drop (Suc idx) entries, pop_comments idx ca))))"

text \<open>
  \<^verbatim>\<open>
    pyReq = [pkg.startswith("python") for pkg in required]
    if any(pyReq):
        required.pop(pyReq.index(True))
  \<close>
\<close>

definition drop_python :: "string list \<Rightarrow> string list" where
  "drop_python required =
     (case first_index (\<lambda>pkg. startswith pkg ''python'') required of
        None \<Rightarrow> required
      | Some i \<Rightarrow> take i required @ drop (Suc i) required)"

fun dependencies :: "yaml \<Rightarrow> builtin_exc + yaml" where
  "dependencies (YMap m) =
     (case map_of m ''dependencies'' of None \<Rightarrow> Inl KeyError | Some deps \<Rightarrow> Inr deps)"
| "dependencies _ = Inl TypeError"

fun package_lists :: "yaml \<Rightarrow> builtin_exc + (string list \<times> string list)" where
  "package_lists (YSeq entries ca lc0) =
     (case pip_lists entries ca (find_pipIndex 0 entries None) of
        Inl e \<Rightarrow> Inl e
      | Inr ((pipReq, pipTest), entries', ca') \<Rightarrow>
          (case process_comments (YSeq entries' ca' lc0) of
             Inl e \<Rightarrow> Inl e
           | Inr (condaReq, condaTest) \<Rightarrow>
               Inr (drop_python (pipReq @ condaReq), pipTest @ condaTest)))"
| "package_lists deps = (case process_comments deps of Inl e \<Rightarrow> Inl e | Inr r \<Rightarrow> Inl OtherError)"

text \<open>
  The header: \<^verbatim>\<open>script\<close> is \<^verbatim>\<open>os.path.basename(__file__)\<close>, \<^verbatim>\<open>now\<close> is
  \<^verbatim>\<open>datetime.datetime.now().strftime("%d/%m/%Y at %H:%M:%S")\<close>.
\<close>

definition header_line1 :: "string \<Rightarrow> string \<Rightarrow> string" where
  "header_line1 script now = ''# This file was auto-generated by '' @ script @ '' on '' @ now @ ''. ''"

definition header_line2 :: string where
  "header_line2 = ''# Do not edit, all of your changes will be overwritten. ''"

definition header_msg :: "string \<Rightarrow> string \<Rightarrow> string" where
  "header_msg script now = header_line1 script now @ [newline] @ header_line2 @ [newline]"

datatype retval = RetNone | RetLists "string list" "string list"

type_synonym files = "string \<Rightarrow> string option"

text \<open>
  \<^verbatim>\<open>conda2pip(ymlFile, return_lists)\<close> on the files \<open>fs\<close> of the working directory.
  \<open>load\<close> is ruamel's parser. Every exception is raised before the first write.
\<close>

definition conda2pip :: "files \<Rightarrow> (string \<Rightarrow> builtin_exc + yaml) \<Rightarrow> string \<Rightarrow> string
    \<Rightarrow> string \<Rightarrow> bool \<Rightarrow> (builtin_exc + retval) \<times> files" where
  "conda2pip fs load script now ymlFile return_lists =
     (case fs ymlFile of
        None \<Rightarrow> (Inl FileNotFoundError, fs)
      | Some text \<Rightarrow>
          (case load text of
             Inl e \<Rightarrow> (Inl e, fs)
           | Inr ymlObj \<Rightarrow>
               (case dependencies ymlObj of
                  Inl e \<Rightarrow> (Inl e, fs)
                | Inr deps \<Rightarrow>
                    (case package_lists deps of
                       Inl e \<Rightarrow> (Inl e, fs)
                     | Inr (required, testing) \<Rightarrow>
                         (let msg = header_msg script now;
                              fs1 = fs(''requirements.txt'' \<mapsto> msg @ join_lines required);
                              fs2 = (if length testing > 0
                                     then fs1(''requirements-test.txt'' \<mapsto> msg @ join_lines testing)
                                     else fs1)
                          in (Inr (if return_lists then RetLists required testing else RetNone), fs2))))))"

text \<open>\<^verbatim>\<open>if __name__ == "__main__": conda2pip()\<close>\<close>

definition main :: "files \<Rightarrow> (string \<Rightarrow> builtin_exc + yaml) \<Rightarrow> string \<Rightarrow> string
    \<Rightarrow> (builtin_exc + retval) \<times> files" where
  "main fs load script now = conda2pip fs load script now ''syncopy.yml'' False"

text \<open>\<^verbatim>\<open>content.split("\n")\<close>: the lines of a written file, to state what stands on each.\<close>

fun split_lines :: "string \<Rightarrow> string list" where
  "split_lines [] = [[]]"
| "split_lines (c # cs) =
     (if c = newline then [] # split_lines cs
      else (case split_lines cs of [] \<Rightarrow> [[c]] | l # ls \<Rightarrow> (c # l) # ls))"

subsection \<open>Example environments\<close>

text \<open>
  The environment of the docstring, with comment tables as the loader may attach them:
  \<^verbatim>\<open>
    dependencies:
      # runtime requirements
      - numpy >= 1.15
      - scipy >= 1.5, < 1.6
      # testing
      - matplotlib >= 3.3, < 3.5
      - pip:
        # optional
        - sphinx_automodapi
  \<close>
\<close>

definition env_docstring :: yaml where
  "env_docstring =
     YMap [(''dependencies'',
       YSeq [YStr ''numpy >= 1.15'', YStr ''scipy >= 1.5, < 1.6'', YStr ''matplotlib >= 3.3, < 3.5'',
             YMap [(''pip'',
               YSeq [YStr ''sphinx_automodapi'']
                    [(0, [OneToken (CommentToken ''# optional'' 7)])] (Some 8))]]
            [(1, [OneToken (CommentToken ''# testing'' 4), NoToken])] (Some 2))]"

text \<open>An environment without any comment: nothing is marked as needed for testing only.\<close>

definition env_plain :: yaml where
  "env_plain =
     YMap [(''name'', YStr ''syncopy''),
           (''dependencies'', YSeq [YStr ''numpy >= 1.15'', YStr ''scipy >= 1.5, < 1.6''] [] (Some 2))]"

text \<open>An environment whose \<^verbatim>\<open>pip:\<close> section is the first entry of \<^verbatim>\<open>dependencies\<close>.\<close>

definition env_pip_first :: yaml where
  "env_pip_first =
     YMap [(''dependencies'',
       YSeq [YMap [(''pip'', YSeq [YStr ''sphinx_automodapi''] [] (Some 2))],
             YStr ''numpy >= 1.15'']
            [] (Some 1))]"

text \<open>
  An environment with an entry that holds a line break, as the quoted YAML string
  \<^verbatim>\<open>"numpy\nscipy"\<close> does.
\<close>

definition env_line_break :: yaml where
  "env_line_break =
     YMap [(''dependencies'', YSeq [YStr (''numpy'' @ [newline] @ ''scipy'')] [] (Some 1))]"

text \<open>A working directory holding \<^verbatim>\<open>syncopy.yml\<close> and an older \<^verbatim>\<open>requirements.txt\<close>.\<close>

definition cwd_files :: files where
  "cwd_files = [''syncopy.yml'' \<mapsto> ''dependencies: ...'', ''requirements.txt'' \<mapsto> ''old'']"

subsection \<open>Well-formed environments and written files\<close>

text \<open>
  What ruamel hands over for a conda environment file: comment entries that are lists hold
  a token, and a sequence with comments has a first entry with a line. In
  \<^verbatim>\<open>dependencies\<close> every entry is a string, but for at most one mapping
  \<^verbatim>\<open>pip: [...]\<close> that is not the first entry and holds a sequence of strings.
\<close>

definition no_empty_token_list :: "(nat \<times> slot list) list \<Rightarrow> bool" where
  "no_empty_token_list ca = list_all (\<lambda>(k, slots). list_all (\<lambda>s. s \<noteq> TokenList []) slots) ca"

fun str_seq :: "yaml \<Rightarrow> bool" where
  "str_seq (YSeq entries ca lc0) =
     (list_all is_str entries \<and> no_empty_token_list ca \<and> (lc0 = None \<longrightarrow> ca = []))"
| "str_seq _ = False"

fun conda_deps :: "yaml \<Rightarrow> bool" where
  "conda_deps (YSeq entries ca lc0) =
     (no_empty_token_list ca \<and> (lc0 = None \<longrightarrow> ca = []) \<and>
      (case find_pipIndex 0 entries None of
         None \<Rightarrow> True
       | Some idx \<Rightarrow>
           idx \<noteq> 0 \<and> list_all is_str (take idx entries) \<and>
           (case pip_section (entries ! idx) of Inl e \<Rightarrow> False | Inr pipSeq \<Rightarrow> str_seq pipSeq)))"
| "conda_deps _ = False"

text \<open>A text without a line break; the parser of the examples; the list a loaded object holds.\<close>

definition no_newline :: "string \<Rightarrow> bool" where
  "no_newline s = (newline \<notin> set s)"

definition loads_as :: "yaml \<Rightarrow> string \<Rightarrow> builtin_exc + yaml" where
  "loads_as ymlObj text = Inr ymlObj"

definition deps_of :: "yaml \<Rightarrow> yaml" where
  "deps_of ymlObj = (case dependencies ymlObj of Inl e \<Rightarrow> YScalar | Inr deps \<Rightarrow> deps)"

text \<open>What \<^verbatim>\<open>f.write(msg)\<close> and \<^verbatim>\<open>f.write("\n".join(pkgs))\<close> leave in a file.\<close>

definition requirements_text :: "string \<Rightarrow> string \<Rightarrow> string list \<Rightarrow> string" where
  "requirements_text script now pkgs =
     header_line1 script now @ [newline] @ header_line2 @ [newline] @ join_lines pkgs"

section \<open>\<^verbatim>\<open>utils/parsers.py\<close>\<close>

subsection \<open>Python values\<close>

text \<open>
  A float is a real number, an infinity or NaN; every \<^verbatim>\<open>float64\<close> is such a value, and
  the comparisons are those of IEEE 754. Rounding plays a part in one place, where an
  integer is turned into a float (\<open>f64\<close> below).
\<close>

datatype pyfloat = Fin real | PInf | NInf | NaN

fun pf_less :: "pyfloat \<Rightarrow> pyfloat \<Rightarrow> bool" where
  "pf_less NaN b = False"
| "pf_less a NaN = False"
| "pf_less (Fin x) (Fin y) = (x < y)"
| "pf_less (Fin x) PInf = True"
| "pf_less (Fin x) NInf = False"
| "pf_less NInf NInf = False"
| "pf_less NInf b = True"
| "pf_less PInf b = False"

fun pf_finite :: "pyfloat \<Rightarrow> bool" where
  "pf_finite (Fin x) = True"
| "pf_finite _ = False"

text \<open>
  The element kinds of the arrays numpy builds from Python objects: \<^verbatim>\<open>bool\<close>,
  \<^verbatim>\<open>int64\<close>, \<^verbatim>\<open>uint64\<close>, \<^verbatim>\<open>float64\<close>, \<^verbatim>\<open>complex128\<close>, \<^verbatim>\<open>str\<close> and
  \<^verbatim>\<open>object\<close>. Arrays of other kinds (\<^verbatim>\<open>float32\<close>, \<^verbatim>\<open>int8\<close>, ...) can only be handed
  over ready-made and are outside the model.
\<close>

datatype dtype = DBool | DInt | DUInt | DFloat | DComplex | DStr | DObject

text \<open>
  Objects: scalars, lists and tuples, arrays (element kind, shape, the elements in row-major
  order), and Syncopy data objects (the texts of the classes of \<^verbatim>\<open>__mro__\<close>, the class
  name, whether \<^verbatim>\<open>data\<close> is set, \<^verbatim>\<open>mode\<close>, \<^verbatim>\<open>dimord\<close>).
\<close>

datatype pyobj =
    PyNone
  | PyBool bool
  | PyInt int
  | PyFloat pyfloat
  | PyComplex pyfloat pyfloat
  | PyStr string
  | PyList "pyobj list"
  | PyTuple "pyobj list"
  | PyArr dtype "nat list" "pyobj list"
  | PyData "string list" string bool string "string list"

text \<open>
  \<^verbatim>\<open>type(x)\<close>, as far as the parsers tell types apart: the four types of numbers, \<^verbatim>\<open>str\<close>,
  and \<open>TOther\<close> for every other object.
\<close>

datatype pytype = TBool | TInt | TFloat | TComplex | TStr | TOther

fun type_of :: "pyobj \<Rightarrow> pytype" where
  "type_of (PyBool b) = TBool"
| "type_of (PyInt i) = TInt"
| "type_of (PyFloat f) = TFloat"
| "type_of (PyComplex re im) = TComplex"
| "type_of (PyStr s) = TStr"
| "type_of _ = TOther"

text \<open>\<^verbatim>\<open>isinstance(var, numbers.Number)\<close>, \<^verbatim>\<open>isinstance(var, complex)\<close>\<close>

fun is_number :: "pyobj \<Rightarrow> bool" where
  "is_number (PyBool b) = True"
| "is_number (PyInt i) = True"
| "is_number (PyFloat f) = True"
| "is_number (PyComplex re im) = True"
| "is_number _ = False"

fun is_complex :: "pyobj \<Rightarrow> bool" where
  "is_complex (PyComplex re im) = True"
| "is_complex _ = False"

text \<open>
  A Python integer is unbounded; numpy holds it as \<^verbatim>\<open>int64\<close> where it fits, as
  \<^verbatim>\<open>uint64\<close> where only that fits, and as a Python object beyond 64 bits.
\<close>

definition fits_int64 :: "int \<Rightarrow> bool" where
  "fits_int64 i = (- (2 ^ 63) \<le> i \<and> i < 2 ^ 63)"

definition fits_uint64 :: "int \<Rightarrow> bool" where
  "fits_uint64 i = (0 \<le> i \<and> i < 2 ^ 64)"

fun big_int :: "pyobj \<Rightarrow> bool" where
  "big_int (PyInt i) = (\<not> fits_int64 i \<and> \<not> fits_uint64 i)"
| "big_int v = False"

text \<open>
  The \<^verbatim>\<open>float64\<close> nearest to a 64-bit integer, ties to the even neighbour: below
  \<open>2\<^sup>5\<^sup>3\<close> the integer itself, above it the 53 leading bits, rounded.
\<close>

function bit_length :: "int \<Rightarrow> nat" where
  "bit_length n = (if n \<le> 0 then 0 else Suc (bit_length (n div 2)))"
  by pat_completeness auto

termination
  by (relation "measure nat") auto

declare bit_length.simps [simp del]

definition f64 :: "int \<Rightarrow> real" where
  "f64 i =
     (let a = \<bar>i\<bar> in
      if a < 2 ^ 53 then of_int i
      else
        (let e = bit_length a - 53;
             q = a div 2 ^ e;
             r = a mod 2 ^ e;
             half = 2 ^ (e - 1);
             q' = (if half < r \<or> (r = half \<and> odd q) then q + 1 else q)
         in of_int (sgn i * (q' * 2 ^ e))))"

text \<open>The exact value of a real scalar as a float; nothing for any other object.\<close>

fun real_value :: "pyobj \<Rightarrow> pyfloat option" where
  "real_value (PyBool b) = Some (Fin (if b then 1 else 0))"
| "real_value (PyInt i) = Some (Fin (of_int i))"
| "real_value (PyFloat f) = Some f"
| "real_value _ = None"

text \<open>Real and imaginary part of a number.\<close>

fun parts :: "pyobj \<Rightarrow> pyfloat list" where
  "parts (PyComplex re im) = [re, im]"
| "parts v = (case real_value v of None \<Rightarrow> [] | Some f \<Rightarrow> [f])"

text \<open>
  \<^verbatim>\<open>np.isfinite(x)\<close>, \<^verbatim>\<open>np.isinf(x)\<close>, \<^verbatim>\<open>np.isnan(x)\<close> on a number that numpy holds as a
  number (an integer of 64 bits is finite whatever its size).
\<close>

definition isfinite :: "pyobj \<Rightarrow> bool" where
  "isfinite v = list_all pf_finite (parts v)"

definition isinf :: "pyobj \<Rightarrow> bool" where
  "isinf v = list_ex (\<lambda>f. f = PInf \<or> f = NInf) (parts v)"

definition isnan :: "pyobj \<Rightarrow> bool" where
  "isnan v = list_ex (\<lambda>f. f = NaN) (parts v)"

text \<open>
  \<^verbatim>\<open>np.round(x) != x\<close>: a finite value differs from its rounding when it is not an
  integer, an infinity rounds to itself, and NaN differs from everything.
\<close>

fun pf_round_differs :: "pyfloat \<Rightarrow> bool" where
  "pf_round_differs (Fin x) = (of_int \<lfloor>x\<rfloor> \<noteq> x)"
| "pf_round_differs NaN = True"
| "pf_round_differs _ = False"

definition round_differs :: "pyobj \<Rightarrow> bool" where
  "round_differs v = list_ex pf_round_differs (parts v)"

text \<open>
  \<^verbatim>\<open>x < y\<close> as numpy 1.24 to 1.26 decides it between an element of an array (or a numpy
  scalar) and a Python scalar, either way round. A number is an integer (a boolean counts
  as 0 or 1), a float or a complex number. Two integers compare as integers where one
  64-bit type holds both, and as floats otherwise; an integer beside a float is turned into
  a float first; beside a complex number the comparison is that of numpy's complex
  numbers, by real part and then by imaginary part.
\<close>

datatype num = IntV int | FloatV pyfloat | ComplexV pyfloat pyfloat

fun num_of :: "pyobj \<Rightarrow> num option" where
  "num_of (PyBool b) = Some (IntV (if b then 1 else 0))"
| "num_of (PyInt i) = Some (IntV i)"
| "num_of (PyFloat f) = Some (FloatV f)"
| "num_of (PyComplex re im) = Some (ComplexV re im)"
| "num_of v = None"

definition int_less :: "int \<Rightarrow> int \<Rightarrow> bool" where
  "int_less a b =
     (if (fits_int64 a \<and> fits_int64 b) \<or> (fits_uint64 a \<and> fits_uint64 b) then a < b
      else f64 a < f64 b)"

fun re_of :: "num \<Rightarrow> pyfloat" where
  "re_of (IntV i) = Fin (f64 i)"
| "re_of (FloatV f) = f"
| "re_of (ComplexV re im) = re"

fun im_of :: "num \<Rightarrow> pyfloat" where
  "im_of (ComplexV re im) = im"
| "im_of n = Fin 0"

definition complex_less :: "num \<Rightarrow> num \<Rightarrow> bool" where
  "complex_less a b =
     ((pf_less (re_of a) (re_of b) \<and> im_of a \<noteq> NaN \<and> im_of b \<noteq> NaN)
      \<or> (re_of a = re_of b \<and> re_of a \<noteq> NaN \<and> pf_less (im_of a) (im_of b)))"

fun num_less :: "num \<Rightarrow> num \<Rightarrow> bool" where
  "num_less (IntV a) (IntV b) = int_less a b"
| "num_less (ComplexV re im) b = complex_less (ComplexV re im) b"
| "num_less a (ComplexV re im) = complex_less a (ComplexV re im)"
| "num_less a b = pf_less (re_of a) (re_of b)"

text \<open>
  An integer beyond 64 bits stays a Python object, and numpy leaves the comparison to
  Python: exact between integers and floats, and an unsupported operand beside a complex
  number.
\<close>

fun py_value :: "num \<Rightarrow> pyfloat option" where
  "py_value (IntV i) = Some (Fin (of_int i))"
| "py_value (FloatV f) = Some f"
| "py_value (ComplexV re im) = None"

definition py_less :: "num \<Rightarrow> num \<Rightarrow> builtin_exc + bool" where
  "py_less a b =
     (case (py_value a, py_value b) of
        (Some x, Some y) \<Rightarrow> Inr (pf_less x y)
      | _ \<Rightarrow> Inl TypeError)"

text \<open>
  Beside a string, \<^verbatim>\<open>None\<close> or another object that is no number the comparison is an
  unsupported operand. Beside a list, a tuple or an array numpy compares entry by
  entry; the model does not follow that, and \<open>OtherError\<close> marks the place.
\<close>

fun is_sequence :: "pyobj \<Rightarrow> bool" where
  "is_sequence (PyList xs) = True"
| "is_sequence (PyTuple xs) = True"
| "is_sequence (PyArr d sh xs) = True"
| "is_sequence v = False"

definition np_less :: "pyobj \<Rightarrow> pyobj \<Rightarrow> builtin_exc + bool" where
  "np_less x y =
     (if is_sequence x \<or> is_sequence y then Inl OtherError
      else
        (case (num_of x, num_of y) of
           (Some a, Some b) \<Rightarrow> if big_int x \<or> big_int y then py_less a b else Inr (num_less a b)
         | _ \<Rightarrow> Inl TypeError))"

text \<open>
  \<^verbatim>\<open>x[i]\<close> for \<open>i \<ge> 0\<close>: an entry of a list, a tuple or a one-dimensional array, a
  character of a string; past the end \<^verbatim>\<open>IndexError\<close>; other objects cannot be indexed.
  Indexing an array of more dimensions gives an array the model has no use for.
\<close>

fun getitem :: "pyobj \<Rightarrow> nat \<Rightarrow> builtin_exc + pyobj" where
  "getitem (PyList xs) i = (if i < length xs then Inr (xs ! i) else Inl IndexError)"
| "getitem (PyTuple xs) i = (if i < length xs then Inr (xs ! i) else Inl IndexError)"
| "getitem (PyArr d [n] xs) i = (if i < length xs then Inr (xs ! i) else Inl IndexError)"
| "getitem (PyArr d shape xs) i = Inl OtherError"
| "getitem (PyStr s) i = (if i < length s then Inr (PyStr [s ! i]) else Inl IndexError)"
| "getitem v i = Inl TypeError"

subsection \<open>Errors and outcomes\<close>

text \<open>
  A message is kept in pieces: literal text, and \<^verbatim>\<open>str(x)\<close> of an object or of an
  element kind. The three
  error kinds of \<^verbatim>\<open>syncopy.utils\<close> carry what their constructors are given:
  \<^verbatim>\<open>SPYTypeError(var, varname, expected)\<close>, \<^verbatim>\<open>SPYValueError(legal, varname, actual)\<close>
  where \<^verbatim>\<open>actual\<close> may be left out, \<^verbatim>\<open>SPYIOError(fs_loc, exists)\<close>.
\<close>

datatype piece = Lit string | StrOf pyobj | StrOfDtype dtype

type_synonym msg = "piece list"

datatype spy_error =
    SPYTypeError pyobj string msg
  | SPYValueError msg string "msg option"
  | SPYIOError string bool

text \<open>
  How a call ends: it returns a value, raises one of the three errors, or fails with a
  built-in exception. What it printed is kept beside the outcome where a routine prints.
\<close>

datatype outcome = Return pyobj | Raise spy_error | Fail builtin_exc

fun is_spy_value_error :: "outcome \<Rightarrow> bool" where
  "is_spy_value_error (Raise (SPYValueError legal varname actual)) = True"
| "is_spy_value_error _ = False"




subsection \<open>The store\<close>

text \<open>
  Objects live in cells; a caller's variable holds the address of its object, and
  \<open>fresh\<close> is the first address not yet given out. A new array goes to a new cell.
\<close>

record state =
  cells :: "nat \<Rightarrow> pyobj"
  fresh :: nat

definition alloc :: "state \<Rightarrow> pyobj \<Rightarrow> nat \<times> state" where
  "alloc st v = (fresh st, st\<lparr>cells := (cells st)(fresh st := v), fresh := Suc (fresh st)\<rparr>)"

subsection \<open>\<^verbatim>\<open>np.array\<close>\<close>

text \<open>
  \<^verbatim>\<open>np.array(x)\<close>, as numpy 1.24 and later build it. An array is copied. Lists and tuples
  are dimensions: where all entries of a level have one shape, the result has that
  nesting as its shape, and a nesting that is not rectangular (entries of different
  lengths, a scalar beside a sequence) raises \<^verbatim>\<open>ValueError\<close>. The element kind is the
  join of the kinds of the entries (float where there is none): a boolean gives way to
  every kind, \<^verbatim>\<open>int64\<close> and \<^verbatim>\<open>uint64\<close> meet in \<^verbatim>\<open>float64\<close>, numbers give way to
  strings, and an integer beyond 64 bits, \<^verbatim>\<open>None\<close> or any other object makes an array
  of objects. The entries are converted to that kind (the texts into which numbers turn
  beside strings are not needed and not computed).
\<close>

definition join_shapes :: "nat list option list \<Rightarrow> nat list option" where
  "join_shapes ss =
     (case ss of
        [] \<Rightarrow> Some [0]
      | s # rest \<Rightarrow>
          (case s of
             None \<Rightarrow> None
           | Some sh \<Rightarrow>
               if list_all (\<lambda>t. t = Some sh) rest then Some (Suc (length rest) # sh) else None))"

fun shape_of :: "pyobj \<Rightarrow> nat list option" where
  "shape_of (PyList xs) = join_shapes (map shape_of xs)"
| "shape_of (PyTuple xs) = join_shapes (map shape_of xs)"
| "shape_of (PyArr d sh xs) = Some sh"
| "shape_of v = Some []"

fun flatten :: "pyobj \<Rightarrow> pyobj list" where
  "flatten (PyList xs) = concat (map flatten xs)"
| "flatten (PyTuple xs) = concat (map flatten xs)"
| "flatten (PyArr d sh xs) = xs"
| "flatten v = [v]"

fun kind_of :: "pyobj \<Rightarrow> dtype" where
  "kind_of (PyBool b) = DBool"
| "kind_of (PyInt i) = (if fits_int64 i then DInt else if fits_uint64 i then DUInt else DObject)"
| "kind_of (PyFloat f) = DFloat"
| "kind_of (PyComplex re im) = DComplex"
| "kind_of (PyStr s) = DStr"
| "kind_of v = DObject"

fun kinds :: "pyobj \<Rightarrow> dtype list" where
  "kinds (PyList xs) = concat (map kinds xs)"
| "kinds (PyTuple xs) = concat (map kinds xs)"
| "kinds (PyArr d sh xs) = [d]"
| "kinds v = [kind_of v]"

fun rank :: "dtype \<Rightarrow> nat" where
  "rank DBool = 0"
| "rank DInt = 1"
| "rank DUInt = 1"
| "rank DFloat = 2"
| "rank DComplex = 3"
| "rank DStr = 4"
| "rank DObject = 5"

definition join_dtype :: "dtype \<Rightarrow> dtype \<Rightarrow> dtype" where
  "join_dtype a b =
     (if a = b then a
      else if rank a = 1 \<and> rank b = 1 then DFloat
      else if rank a < rank b then b else a)"

definition promote :: "dtype list \<Rightarrow> dtype" where
  "promote ks = (case ks of [] \<Rightarrow> DFloat | k # rest \<Rightarrow> fold join_dtype rest k)"

fun cast :: "dtype \<Rightarrow> pyobj \<Rightarrow> pyobj" where
  "cast DInt (PyBool b) = PyInt (if b then 1 else 0)"
| "cast DUInt (PyBool b) = PyInt (if b then 1 else 0)"
| "cast DFloat (PyBool b) = PyFloat (Fin (if b then 1 else 0))"
| "cast DFloat (PyInt i) = PyFloat (Fin (f64 i))"
| "cast DComplex (PyBool b) = PyComplex (Fin (if b then 1 else 0)) (Fin 0)"
| "cast DComplex (PyInt i) = PyComplex (Fin (f64 i)) (Fin 0)"
| "cast DComplex (PyFloat f) = PyComplex f (Fin 0)"
| "cast d v = v"

definition np_array :: "pyobj \<Rightarrow> builtin_exc + pyobj" where
  "np_array v =
     (case v of
        PyArr d sh xs \<Rightarrow> Inr (PyArr d sh xs)
      | _ \<Rightarrow>
          (case shape_of v of
             Some sh \<Rightarrow> (let d = promote (kinds v) in Inr (PyArr d sh (map (cast d) (flatten v))))
           | None \<Rightarrow> Inl ValueError))"

text \<open>The parts of an array; an object that is no array has none.\<close>

fun arr_dtype :: "pyobj \<Rightarrow> dtype" where
  "arr_dtype (PyArr d sh xs) = d"
| "arr_dtype v = DObject"

fun arr_shape :: "pyobj \<Rightarrow> nat list" where
  "arr_shape (PyArr d sh xs) = sh"
| "arr_shape v = []"

fun arr_elems :: "pyobj \<Rightarrow> pyobj list" where
  "arr_elems (PyArr d sh xs) = xs"
| "arr_elems v = []"

subsection \<open>\<^verbatim>\<open>scalar_parser\<close>\<close>

text \<open>
  \<^verbatim>\<open>getattr(__builtins__, ntype)\<close>: what the name stands for in \<^verbatim>\<open>__builtins__\<close> is a
  parameter \<open>bi\<close> of the model (\<^verbatim>\<open>AttributeError\<close> where the name is not found). In a
  module that is imported, as \<^verbatim>\<open>syncopy.utils.parsers\<close> is, CPython binds
  \<^verbatim>\<open>__builtins__\<close> to the dictionary of the built-in module and not to the module:
  \<^verbatim>\<open>getattr\<close> then finds the attributes of a \<^verbatim>\<open>dict\<close> (here those of CPython 3.11),
  none of which is the type of a number, and no built-in type at all. \<open>builtins\<close> is
  that dictionary.
\<close>

definition dict_attributes :: "string list" where
  "dict_attributes =
     [''__class__'', ''__class_getitem__'', ''__contains__'', ''__delattr__'', ''__delitem__'',
      ''__dir__'', ''__doc__'', ''__eq__'', ''__format__'', ''__ge__'', ''__getattribute__'',
      ''__getitem__'', ''__getstate__'', ''__gt__'', ''__hash__'', ''__init__'',
      ''__init_subclass__'', ''__ior__'', ''__iter__'', ''__le__'', ''__len__'', ''__lt__'',
      ''__ne__'', ''__new__'', ''__or__'', ''__reduce__'', ''__reduce_ex__'', ''__repr__'',
      ''__reversed__'', ''__ror__'', ''__setattr__'', ''__setitem__'', ''__sizeof__'', ''__str__'',
      ''__subclasshook__'', ''clear'', ''copy'', ''fromkeys'', ''get'', ''items'', ''keys'', ''pop'',
      ''popitem'', ''setdefault'', ''update'', ''values'']"

definition builtins :: "string \<Rightarrow> builtin_exc + pytype" where
  "builtins name = (if name \<in> set dict_attributes then Inr TOther else Inl AttributeError)"

text \<open>
  Lines 202 to 208. \<^verbatim>\<open>np.round\<close> of an integer beyond 64 bits works on a Python object
  and raises \<^verbatim>\<open>TypeError\<close>.
  \<^verbatim>\<open>
    if ntype is not None:
        if ntype == "int_like":
            if np.round(var) != var:
                raise SPYValueError(ntype, varname=varname, actual=str(var))
        else:
            if type(var) != getattr(__builtins__, ntype):
                raise SPYTypeError(var, varname=varname, expected=ntype)
  \<close>
\<close>

definition check_ntype :: "(string \<Rightarrow> builtin_exc + pytype) \<Rightarrow> pyobj \<Rightarrow> string
    \<Rightarrow> string option \<Rightarrow> outcome option" where
  "check_ntype bi v varname ntype =
     (case ntype of
        None \<Rightarrow> None
      | Some nt \<Rightarrow>
          if nt = ''int_like'' then
            (if big_int v then Some (Fail TypeError)
             else if round_differs v
             then Some (Raise (SPYValueError [Lit nt] varname (Some [StrOf v])))
             else None)
          else
            (case bi nt of
               Inl e \<Rightarrow> Some (Fail e)
             | Inr t \<Rightarrow>
                 if type_of v \<noteq> t
                 then Some (Raise (SPYTypeError v varname [Lit nt]))
                 else None))"

text \<open>
  \<^verbatim>\<open>np.any(val < x)\<close> and \<^verbatim>\<open>np.any(val > x)\<close> for the elements of \<^verbatim>\<open>val\<close> and a bound.
\<close>

fun any_less :: "pyobj list \<Rightarrow> pyobj \<Rightarrow> builtin_exc + bool" where
  "any_less [] x = Inr False"
| "any_less (a # val) x =
     (case np_less a x of
        Inl e \<Rightarrow> Inl e
      | Inr b \<Rightarrow> (case any_less val x of Inl e \<Rightarrow> Inl e | Inr c \<Rightarrow> Inr (b \<or> c)))"

fun any_greater :: "pyobj list \<Rightarrow> pyobj \<Rightarrow> builtin_exc + bool" where
  "any_greater [] x = Inr False"
| "any_greater (a # val) x =
     (case np_less x a of
        Inl e \<Rightarrow> Inl e
      | Inr b \<Rightarrow> (case any_greater val x of Inl e \<Rightarrow> Inl e | Inr c \<Rightarrow> Inr (b \<or> c)))"

text \<open>
  \<^verbatim>\<open>
    legal += "greater or equals {lb:s} and less or equals {ub:s}"
    raise SPYValueError(legal.format(lb=str(lims[0]), ub=str(lims[1])),
                        varname=varname, actual=str(var))
  \<close>
\<close>

definition scalar_legal :: "pyobj \<Rightarrow> string" where
  "scalar_legal v =
     (if is_complex v then ''both real and imaginary part to be '' else ''value to be '')"

definition raise_scalar_bounds :: "pyobj \<Rightarrow> string \<Rightarrow> pyobj \<Rightarrow> outcome" where
  "raise_scalar_bounds v varname l =
     (case getitem l 0 of
        Inl e \<Rightarrow> Fail e
      | Inr lb \<Rightarrow>
          (case getitem l 1 of
             Inl e \<Rightarrow> Fail e
           | Inr ub \<Rightarrow>
               Raise (SPYValueError
                 [Lit (scalar_legal v), Lit ''greater or equals '', StrOf lb,
                  Lit '' and less or equals '', StrOf ub]
                 varname (Some [StrOf v]))))"

text \<open>
  Line 219, left to right with the short cuts of \<^verbatim>\<open>or\<close>:
  \<^verbatim>\<open>if np.any(val < lims[0]) or np.any(val > lims[1]) or not np.isfinite(var):\<close>
  \<^verbatim>\<open>np.isfinite\<close> of an integer beyond 64 bits raises \<^verbatim>\<open>TypeError\<close>.
\<close>

definition check_scalar_bounds :: "pyobj \<Rightarrow> string \<Rightarrow> pyobj \<Rightarrow> pyobj list \<Rightarrow> outcome" where
  "check_scalar_bounds v varname l val =
     (case getitem l 0 of
        Inl e \<Rightarrow> Fail e
      | Inr lb \<Rightarrow>
          (case any_less val lb of
             Inl e \<Rightarrow> Fail e
           | Inr True \<Rightarrow> raise_scalar_bounds v varname l
           | Inr False \<Rightarrow>
               (case getitem l 1 of
                  Inl e \<Rightarrow> Fail e
                | Inr ub \<Rightarrow>
                    (case any_greater val ub of
                       Inl e \<Rightarrow> Fail e
                     | Inr True \<Rightarrow> raise_scalar_bounds v varname l
                     | Inr False \<Rightarrow>
                         if big_int v then Fail TypeError
                         else if \<not> isfinite v then raise_scalar_bounds v varname l
                         else Return PyNone))))"

text \<open>
  \<^verbatim>\<open>scalar_parser(var, varname, ntype, lims)\<close>: \<open>var\<close> and \<open>lims\<close> are the addresses of
  the caller's objects (\<open>lims\<close> may hold \<^verbatim>\<open>None\<close>), \<open>v\<close> and \<open>l\<close> the objects
  found there; \<^verbatim>\<open>val = np.array([var])\<close> or \<^verbatim>\<open>np.array([var.real, var.imag])\<close> is a new
  array of one or two numbers.
\<close>

definition scalar_val :: "pyobj \<Rightarrow> pyobj" where
  "scalar_val v =
     (case v of
        PyComplex re im \<Rightarrow> PyArr DFloat [2] [PyFloat re, PyFloat im]
      | _ \<Rightarrow> PyArr (kind_of v) [1] [v])"

definition scalar_parser :: "(string \<Rightarrow> builtin_exc + pytype) \<Rightarrow> state \<Rightarrow> nat \<Rightarrow> string
    \<Rightarrow> string option \<Rightarrow> nat \<Rightarrow> outcome \<times> state" where
  "scalar_parser bi st var varname ntype lims =
     (let v = cells st var; l = cells st lims in
      if \<not> is_number v then (Raise (SPYTypeError v varname [Lit ''scalar'']), st)
      else
        (case check_ntype bi v varname ntype of
           Some out \<Rightarrow> (out, st)
         | None \<Rightarrow>
             if l = PyNone then (Return PyNone, st)
             else
               (let (val, st') = alloc st (scalar_val v)
                in (check_scalar_bounds v varname l (arr_elems (cells st' val)), st'))))"

subsection \<open>\<^verbatim>\<open>array_parser\<close>\<close>

text \<open>
  \<^verbatim>\<open>np.dtype(ntype).type\<close>: numpy reads many names (type names, type codes with sizes,
  dates), and what a name stands for is a parameter \<open>dt\<close> of the model: an element kind
  of the model, another type (\<open>None\<close>), or \<^verbatim>\<open>TypeError\<close> for a name numpy does not
  understand. \<^verbatim>\<open>np.issubdtype(d, t)\<close> for such a type \<open>t\<close> holds when \<open>d\<close> is \<open>t\<close>, and
  \<^verbatim>\<open>np.issubdtype(d, np.number)\<close> for the numeric kinds. \<open>dtype_names\<close> is an excerpt of
  numpy's table on a 64-bit Linux, for the examples.
\<close>

definition dtype_names :: "string \<Rightarrow> builtin_exc + dtype option" where
  "dtype_names name =
     (if name = ''bool'' then Inr (Some DBool)
      else if name \<in> set [''int'', ''int64'', ''i8''] then Inr (Some DInt)
      else if name \<in> set [''uint'', ''uint64'', ''u8''] then Inr (Some DUInt)
      else if name \<in> set [''float'', ''float64'', ''double'', ''f8''] then Inr (Some DFloat)
      else if name \<in> set [''complex'', ''complex128'', ''c16''] then Inr (Some DComplex)
      else if name = ''str'' then Inr (Some DStr)
      else if name \<in> set [''object'', ''O''] then Inr (Some DObject)
      else if name \<in> set [''int8'', ''int16'', ''int32'', ''uint8'', ''uint16'', ''uint32'',
                           ''float16'', ''float32'', ''complex64'']
        then Inr None
      else Inl TypeError)"

definition is_numeric :: "dtype \<Rightarrow> bool" where
  "is_numeric d = (d = DInt \<or> d = DUInt \<or> d = DFloat \<or> d = DComplex)"

text \<open>\<^verbatim>\<open>np.isinf\<close>, \<^verbatim>\<open>np.isnan\<close> and \<^verbatim>\<open>np.isfinite\<close> take numbers and booleans only.\<close>

definition has_ufunc :: "dtype \<Rightarrow> bool" where
  "has_ufunc d = (d \<noteq> DStr \<and> d \<noteq> DObject)"

text \<open>\<^verbatim>\<open>isinstance(var, (np.ndarray, list))\<close>\<close>

fun is_array_like :: "pyobj \<Rightarrow> bool" where
  "is_array_like (PyList xs) = True"
| "is_array_like (PyArr d sh xs) = True"
| "is_array_like v = False"

text \<open>
  Lines 344 to 356. \<^verbatim>\<open>for a in arr\<close> cannot iterate an array without dimensions.
  \<^verbatim>\<open>
    msg = "dtype = {dt:s}"
    if ntype in ["numeric", "int_like"]:
        if not np.issubdtype(arr.dtype, np.number):
            raise SPYValueError(msg.format(dt="numeric"), varname=varname,
                                actual=msg.format(dt=str(arr.dtype)))
        if ntype == "int_like":
            if not np.all([np.round(a) == a for a in arr]):
                raise SPYValueError(msg.format(dt=ntype), varname=varname)
    else:
        if not np.issubdtype(arr.dtype, np.dtype(ntype).type):
            raise SPYValueError(msg.format(dt=ntype), varname=varname,
                                actual=msg.format(dt=str(arr.dtype)))
  \<close>
\<close>

definition check_array_ntype :: "(string \<Rightarrow> builtin_exc + dtype option) \<Rightarrow> pyobj \<Rightarrow> string
    \<Rightarrow> string option \<Rightarrow> outcome option" where
  "check_array_ntype dt arr varname ntype =
     (case ntype of
        None \<Rightarrow> None
      | Some nt \<Rightarrow>
          if nt \<in> set [''numeric'', ''int_like''] then
            (if \<not> is_numeric (arr_dtype arr) then
               Some (Raise (SPYValueError [Lit ''dtype = '', Lit ''numeric''] varname
                             (Some [Lit ''dtype = '', StrOfDtype (arr_dtype arr)])))
             else if nt = ''int_like'' then
               (if arr_shape arr = [] then Some (Fail TypeError)
                else if \<not> list_all (\<lambda>a. \<not> round_differs a) (arr_elems arr) then
                  Some (Raise (SPYValueError [Lit ''dtype = '', Lit nt] varname None))
                else None)
             else None)
          else
            (case dt nt of
               Inl e \<Rightarrow> Some (Fail e)
             | Inr t \<Rightarrow>
                 if t \<noteq> Some (arr_dtype arr) then
                   Some (Raise (SPYValueError [Lit ''dtype = '', Lit nt] varname
                                 (Some [Lit ''dtype = '', StrOfDtype (arr_dtype arr)])))
                 else None))"

text \<open>
  Lines 359 to 367 and 370 to 378: the two tests share their shape; \<open>test\<close> is
  \<^verbatim>\<open>np.isinf\<close> or \<^verbatim>\<open>np.isnan\<close>, and the texts are those of the source.
  \<^verbatim>\<open>
    if hasinf is not None:
        if not hasinf and np.isinf(arr).any():
            lgl = "finite numerical array"
            act = "array with {} `inf` entries".format(str(np.isinf(arr).sum()))
            raise SPYValueError(legal=lgl, varname=varname, actual=act)
        if hasinf and not np.isinf(arr).any():
            lgl = "numerical array with infinite (`np.inf`) entries"
            act = "finite numerical array"
            raise SPYValueError(legal=lgl, varname=varname, actual=act)
  \<close>
\<close>

definition check_has :: "(pyobj \<Rightarrow> bool) \<Rightarrow> string \<Rightarrow> string \<Rightarrow> string \<Rightarrow> string
    \<Rightarrow> pyobj \<Rightarrow> string \<Rightarrow> bool option \<Rightarrow> outcome option" where
  "check_has test lgl_without act_entries lgl_with act_without arr varname has =
     (case has of
        None \<Rightarrow> None
      | Some h \<Rightarrow>
          if \<not> has_ufunc (arr_dtype arr) then Some (Fail TypeError)
          else
            (let n = length (filter test (arr_elems arr)) in
             if \<not> h \<and> n > 0 then
               Some (Raise (SPYValueError [Lit lgl_without] varname
                             (Some [Lit ''array with '', StrOf (PyInt (int n)), Lit act_entries])))
             else if h \<and> n = 0 then
               Some (Raise (SPYValueError [Lit lgl_with] varname (Some [Lit act_without])))
             else None))"

definition check_hasinf :: "pyobj \<Rightarrow> string \<Rightarrow> bool option \<Rightarrow> outcome option" where
  "check_hasinf =
     check_has isinf ''finite numerical array'' ('' '' @ [CHR 0x60] @ ''inf'' @ [CHR 0x60] @ '' entries'')
       (''numerical array with infinite ('' @ [CHR 0x60] @ ''np.inf'' @ [CHR 0x60] @ '') entries'')
       ''finite numerical array''"

definition check_hasnan :: "pyobj \<Rightarrow> string \<Rightarrow> bool option \<Rightarrow> outcome option" where
  "check_hasnan =
     check_has isnan ''well-defined numerical array'' ('' '' @ [CHR 0x60] @ ''NaN'' @ [CHR 0x60] @ '' entries'')
       (''numerical array with undefined ('' @ [CHR 0x60] @ ''np.nan'' @ [CHR 0x60] @ '') entries'')
       ''well-defined numerical array''"

text \<open>
  Lines 381 to 392. \<^verbatim>\<open>fi_arr = arr[np.isfinite(arr)]\<close> holds the finite elements, and
  \<open>bound_values\<close> are the numbers the reductions run over: the elements, or the real and
  the imaginary parts of a complex array. \<^verbatim>\<open>min()\<close> and \<^verbatim>\<open>max()\<close> of an array without
  elements raise \<^verbatim>\<open>ValueError\<close>; among finite numbers of one kind they go by the exact
  values. The two results are numpy scalars, compared with the bounds as above.
  \<^verbatim>\<open>
    fi_arr = arr[np.isfinite(arr)]
    if np.issubdtype(fi_arr.dtype, np.dtype("complex").type):
        amin = min(fi_arr.real.min(), fi_arr.imag.min())
        amax = max(fi_arr.real.max(), fi_arr.imag.max())
    else:
        amin = fi_arr.min()
        amax = fi_arr.max()
    if amin < lims[0] or amax > lims[1]:
        legal = "all array elements to be bounded by {lb:s} and {ub:s}"
        raise SPYValueError(legal.format(lb=str(lims[0]), ub=str(lims[1])),
                            varname=varname)
  \<close>
\<close>

definition finite_elems :: "pyobj \<Rightarrow> pyobj" where
  "finite_elems arr =
     (let fi = filter isfinite (arr_elems arr) in PyArr (arr_dtype arr) [length fi] fi)"

definition bound_values :: "pyobj \<Rightarrow> pyobj list" where
  "bound_values fi_arr =
     (if arr_dtype fi_arr = DComplex
      then concat (map (\<lambda>x. map PyFloat (parts x)) (arr_elems fi_arr))
      else arr_elems fi_arr)"

definition value_less :: "pyobj \<Rightarrow> pyobj \<Rightarrow> bool" where
  "value_less x y =
     (case (real_value x, real_value y) of (Some a, Some b) \<Rightarrow> pf_less a b | _ \<Rightarrow> False)"

definition np_min :: "pyobj \<Rightarrow> pyobj \<Rightarrow> pyobj" where
  "np_min a b = (if value_less b a then b else a)"

definition np_max :: "pyobj \<Rightarrow> pyobj \<Rightarrow> pyobj" where
  "np_max a b = (if value_less a b then b else a)"

definition raise_array_bounds :: "string \<Rightarrow> pyobj \<Rightarrow> outcome" where
  "raise_array_bounds varname l =
     (case getitem l 0 of
        Inl e \<Rightarrow> Fail e
      | Inr lb \<Rightarrow>
          (case getitem l 1 of
             Inl e \<Rightarrow> Fail e
           | Inr ub \<Rightarrow>
               Raise (SPYValueError
                 [Lit ''all array elements to be bounded by '', StrOf lb, Lit '' and '', StrOf ub]
                 varname None)))"

definition check_array_bounds :: "pyobj \<Rightarrow> string \<Rightarrow> pyobj \<Rightarrow> outcome option" where
  "check_array_bounds fi_arr varname l =
     (case bound_values fi_arr of
        [] \<Rightarrow> Some (Fail ValueError)
      | x # xs \<Rightarrow>
          (let amin = fold np_min xs x; amax = fold np_max xs x in
           case getitem l 0 of
             Inl e \<Rightarrow> Some (Fail e)
           | Inr lb \<Rightarrow>
               (case np_less amin lb of
                  Inl e \<Rightarrow> Some (Fail e)
                | Inr True \<Rightarrow> Some (raise_array_bounds varname l)
                | Inr False \<Rightarrow>
                    (case getitem l 1 of
                       Inl e \<Rightarrow> Some (Fail e)
                     | Inr ub \<Rightarrow>
                         (case np_less ub amax of
                            Inl e \<Rightarrow> Some (Fail e)
                          | Inr True \<Rightarrow> Some (raise_array_bounds varname l)
                          | Inr False \<Rightarrow> None)))))"

text \<open>
  Lines 395 to 419. \<open>dims\<close> is a tuple of sizes (\<^verbatim>\<open>None\<close> for a size left open) or a
  number of dimensions. Tuples compare as Python compares them, and \<^verbatim>\<open>max(a, b)\<close> is
  \<open>b\<close> only where \<open>b > a\<close>; \<^verbatim>\<open>arr.squeeze()\<close> is a view without the dimensions of size 1.
\<close>

datatype dims_arg = DimsTuple "nat option list" | DimsInt int

fun tuple_less :: "nat list \<Rightarrow> nat list \<Rightarrow> bool" where
  "tuple_less [] [] = False"
| "tuple_less [] (y # ys) = True"
| "tuple_less (x # xs) [] = False"
| "tuple_less (x # xs) (y # ys) = (x < y \<or> (x = y \<and> tuple_less xs ys))"

definition squeeze :: "nat list \<Rightarrow> nat list" where
  "squeeze sh = filter (\<lambda>n. n \<noteq> 1) sh"

definition ischar :: "pyobj \<Rightarrow> nat" where
  "ischar arr = (if arr_dtype arr = DStr then 1 else 0)"

definition dims_text :: "nat option list \<Rightarrow> pyobj" where
  "dims_text ds = PyTuple (map (\<lambda>d. case d of None \<Rightarrow> PyNone | Some n \<Rightarrow> PyInt (int n)) ds)"

definition shape_text :: "nat list \<Rightarrow> pyobj" where
  "shape_text sh = PyTuple (map (\<lambda>n. PyInt (int n)) sh)"

text \<open>
  \<^verbatim>\<open>
    for dk, dim in enumerate(dims):
        if dim is not None and ashape[dk] != dim:
            raise SPYValueError("array of shape " + str(dims),
                                varname=varname, actual="shape = " + str(arr.shape))
  \<close>
  The two tuples have the same length here.
\<close>

fun shape_mismatch :: "nat option list \<Rightarrow> nat list \<Rightarrow> bool" where
  "shape_mismatch (Some want # ds) (a # ashape) = (a \<noteq> want \<or> shape_mismatch ds ashape)"
| "shape_mismatch (None # ds) (a # ashape) = shape_mismatch ds ashape"
| "shape_mismatch ds ashape = False"

definition check_dims :: "pyobj \<Rightarrow> string \<Rightarrow> dims_arg option \<Rightarrow> outcome option" where
  "check_dims arr varname dims =
     (case dims of
        None \<Rightarrow> None
      | Some (DimsTuple ds) \<Rightarrow>
          (let ashape =
                 (if length ds > 1 then arr_shape arr
                  else if tuple_less [ischar arr] (squeeze (arr_shape arr))
                    then squeeze (arr_shape arr) else [ischar arr])
           in
           if length ds \<noteq> length ashape then
             Some (Raise (SPYValueError
               [StrOf (PyInt (int (length ds))), Lit ''-dimensional array''] varname
               (Some [StrOf (PyInt (int (length ashape))), Lit ''-dimensional array''])))
           else if shape_mismatch ds ashape then
             Some (Raise (SPYValueError [Lit ''array of shape '', StrOf (dims_text ds)] varname
               (Some [Lit ''shape = '', StrOf (shape_text (arr_shape arr))])))
           else None)
      | Some (DimsInt n) \<Rightarrow>
          (let ndim = max (ischar arr) (length (arr_shape arr)) in
           if int ndim \<noteq> n then
             Some (Raise (SPYValueError [StrOf (PyInt n), Lit ''d-array''] varname
               (Some [StrOf (PyInt (int ndim)), Lit ''d-array''])))
           else None))"

text \<open>
  \<^verbatim>\<open>array_parser(var, varname, ntype, hasinf, hasnan, lims, dims)\<close>: \<open>var\<close> and \<open>lims\<close>
  are the addresses of the caller's objects, \<open>v\<close> and \<open>l\<close> the objects found there.
  \<^verbatim>\<open>arr = np.array(var)\<close> and \<^verbatim>\<open>fi_arr\<close> are new arrays, and every later step reads
  these. Without bounds the function goes on to the dimensions; with bounds it gets there
  when the bounds hold.
  \<^verbatim>\<open>
    if lims is not None and ntype is None:
        ntype = "numeric"
  \<close>
\<close>

definition array_parser :: "(string \<Rightarrow> builtin_exc + dtype option) \<Rightarrow> state \<Rightarrow> nat \<Rightarrow> string
    \<Rightarrow> string option \<Rightarrow> bool option \<Rightarrow> bool option \<Rightarrow> nat \<Rightarrow> dims_arg option
    \<Rightarrow> outcome \<times> state" where
  "array_parser dt st var varname ntype hasinf hasnan lims dims =
     (let v = cells st var; l = cells st lims in
      if \<not> is_array_like v then (Raise (SPYTypeError v varname [Lit ''array_like'']), st)
      else
        (case np_array v of
           Inl e \<Rightarrow> (Fail e, st)
         | Inr built \<Rightarrow>
             (let (a, st1) = alloc st built;
                  arr = cells st1 a;
                  ntype1 = (if l \<noteq> PyNone \<and> ntype = None then Some ''numeric'' else ntype)
              in
              case check_array_ntype dt arr varname ntype1 of
                Some out \<Rightarrow> (out, st1)
              | None \<Rightarrow>
                  (case check_hasinf arr varname hasinf of
                     Some out \<Rightarrow> (out, st1)
                   | None \<Rightarrow>
                       (case check_hasnan arr varname hasnan of
                          Some out \<Rightarrow> (out, st1)
                        | None \<Rightarrow>
                            if l = PyNone then
                              (case check_dims arr varname dims of
                                 Some out \<Rightarrow> (out, st1)
                               | None \<Rightarrow> (Return PyNone, st1))
                            else if \<not> has_ufunc (arr_dtype arr) then (Fail TypeError, st1)
                            else
                              (let (f, st2) = alloc st1 (finite_elems arr) in
                               case check_array_bounds (cells st2 f) varname l of
                                 Some out \<Rightarrow> (out, st2)
                               | None \<Rightarrow>
                                   (case check_dims arr varname dims of
                                      Some out \<Rightarrow> (out, st2)
                                    | None \<Rightarrow> (Return PyNone, st2))))))))"

subsection \<open>Example stores\<close>

text \<open>The store holding the given objects at the addresses 0, 1, ...\<close>

definition store_of :: "pyobj list \<Rightarrow> state" where
  "store_of xs = \<lparr>cells = (\<lambda>a. if a < length xs then xs ! a else PyNone), fresh = length xs\<rparr>"

subsection \<open>\<^verbatim>\<open>io_parser\<close>\<close>

text \<open>
  What the file system holds at a path: nothing, a file, a directory, or something else
  that exists. \<^verbatim>\<open>os.path.exists\<close>, \<^verbatim>\<open>isdir\<close> and \<^verbatim>\<open>isfile\<close> read it.
  \<^verbatim>\<open>os.path.abspath(os.path.expanduser(fs_loc))\<close> depends on the working directory and
  the user's home and is a parameter \<open>abspath\<close> of the model.
\<close>

datatype fs_kind = Absent | File | Dir | OtherKind

text \<open>\<^verbatim>\<open>ext\<close>: one extension, or a list of extensions.\<close>

datatype ext_arg = ExtStr string | ExtList "string list"

fun ext_len :: "ext_arg \<Rightarrow> nat" where
  "ext_len (ExtStr s) = length s"
| "ext_len (ExtList xs) = length xs"

text \<open>
  \<^verbatim>\<open>str(ext)\<close>: the string itself, or the list as Python prints it,
  \<^verbatim>\<open>['lfp', 'mua']\<close> (extensions hold no quote and no backslash).
\<close>

fun join_with :: "string \<Rightarrow> string list \<Rightarrow> string" where
  "join_with sep [] = []"
| "join_with sep [x] = x"
| "join_with sep (x # y # ys) = x @ sep @ join_with sep (y # ys)"

fun ext_str :: "ext_arg \<Rightarrow> string" where
  "ext_str (ExtStr s) = s"
| "ext_str (ExtList xs) =
     ''['' @ join_with '', '' (map (\<lambda>x. [CHR 0x27] @ x @ [CHR 0x27]) xs) @ '']''"

text \<open>
  \<^verbatim>\<open>
    if isinstance(ext, (list, np.ndarray)):
        ext = "".join(ex + ", " for ex in ext)[:-2]
  \<close>
\<close>

fun ext_legal :: "ext_arg \<Rightarrow> string" where
  "ext_legal (ExtStr s) = s"
| "ext_legal (ExtList xs) = butlast (butlast (concat (map (\<lambda>ex. ex @ '', '') xs)))"

text \<open>
  \<^verbatim>\<open>os.path.basename\<close>; the extension of \<^verbatim>\<open>os.path.splitext\<close> (from the last dot on,
  where something other than dots stands before it); \<^verbatim>\<open>s.split(sep)[0]\<close>, which
  raises \<^verbatim>\<open>ValueError\<close> for an empty separator.
\<close>

definition basename :: "string \<Rightarrow> string" where
  "basename p = rev (takeWhile (\<lambda>c. c \<noteq> CHR ''/'') (rev p))"

definition splitext_ext :: "string \<Rightarrow> string" where
  "splitext_ext name =
     (let r = rev name;
          after = takeWhile (\<lambda>c. c \<noteq> CHR ''.'') r;
          rest = dropWhile (\<lambda>c. c \<noteq> CHR ''.'') r
      in if rest = [] then []
         else if list_all (\<lambda>c. c = CHR ''.'') (tl rest) then []
         else CHR ''.'' # rev after)"

fun before_first :: "string \<Rightarrow> string \<Rightarrow> string" where
  "before_first [] sep = []"
| "before_first (c # cs) sep = (if startswith (c # cs) sep then [] else c # before_first cs sep)"

definition io_warning :: string where
  "io_warning = ''<io_parser> WARNING: filename extension(s) specified but '' @
     [CHR 0x60] @ ''isfile = False'' @ [CHR 0x60] @ ''. Exiting...''"

text \<open>
  Lines 97 to 104, for a directory:
  \<^verbatim>\<open>
    isdir = os.path.isdir(fs_loc)
    if (isdir and not exists):
        raise SPYIOError (fs_loc, exists=isdir)
    elif (not isdir and exists):
        raise SPYValueError(legal="directory", actual="file")
    else:
        return fs_loc
  \<close>
\<close>

definition io_directory :: "fs_kind \<Rightarrow> string \<Rightarrow> bool \<Rightarrow> outcome" where
  "io_directory kind path exists =
     (let isdir = (kind = Dir) in
      if isdir \<and> \<not> exists then Raise (SPYIOError path isdir)
      else if \<not> isdir \<and> exists then Raise (SPYValueError [Lit ''directory''] [] (Some [Lit ''file'']))
      else Return (PyStr path))"

text \<open>
  Lines 113 to 126, the extension of a file name:
  \<^verbatim>\<open>
    file_ext = os.path.splitext(file_name)[1]
    file_ext = file_ext.replace(".", "")
    error = False
    if len(file_ext) == 0:
        error = True
    if file_ext not in str(ext) or error:
        ...
        raise SPYValueError(ext, varname="filename-extension", actual=file_ext)
  \<close>
\<close>

definition file_ext_of :: "string \<Rightarrow> string" where
  "file_ext_of file_name = str_replace (splitext_ext file_name) ''.'' []"

definition io_extension :: "string \<Rightarrow> ext_arg \<Rightarrow> outcome option" where
  "io_extension file_name ext =
     (if ext_len ext \<noteq> 0 then
        (let file_ext = file_ext_of file_name;
             error = (length file_ext = 0)
         in if \<not> contains (ext_str ext) file_ext \<or> error
            then Some (Raise (SPYValueError [Lit (ext_legal ext)] ''filename-extension''
                               (Some [Lit file_ext])))
            else None)
      else None)"

text \<open>
  Lines 129 to 135:
  \<^verbatim>\<open>
    isfile = os.path.isfile(fs_loc)
    if (isfile and not exists):
        raise SPYIOError(fs_loc, exists=isfile)
    elif (not isfile and exists):
        raise SPYValueError(legal="file", actual="directory")
    else:
        return fs_loc.split(file_name)[0], file_name
  \<close>
\<close>

definition io_file :: "fs_kind \<Rightarrow> string \<Rightarrow> string \<Rightarrow> bool \<Rightarrow> outcome" where
  "io_file kind path file_name exists =
     (let isfile = (kind = File) in
      if isfile \<and> \<not> exists then Raise (SPYIOError path isfile)
      else if \<not> isfile \<and> exists then Raise (SPYValueError [Lit ''file''] [] (Some [Lit ''directory'']))
      else if file_name = [] then Fail ValueError
      else Return (PyTuple [PyStr (before_first path file_name), PyStr file_name]))"

text \<open>
  \<^verbatim>\<open>io_parser(fs_loc, varname, isfile, ext, exists)\<close> on the file system \<open>fs\<close>: what it
  printed, and how it ended.
  \<^verbatim>\<open>
    if not isfile and len(ext) > 0:
        print("<io_parser> WARNING: filename extension(s) specified but " +\
              "`isfile = False`. Exiting...")
        return
    if not isinstance(fs_loc, str):
        raise SPYTypeError(fs_loc, varname=varname, expected=str)
    fs_loc = os.path.abspath(os.path.expanduser(fs_loc))
    if exists and not os.path.exists(fs_loc):
        raise SPYIOError(fs_loc, exists=False)
    if not exists and os.path.exists(fs_loc):
        raise SPYIOError(fs_loc, exists=True)
  \<close>
\<close>

definition io_parser :: "(string \<Rightarrow> fs_kind) \<Rightarrow> (string \<Rightarrow> string) \<Rightarrow> pyobj \<Rightarrow> string
    \<Rightarrow> bool \<Rightarrow> ext_arg \<Rightarrow> bool \<Rightarrow> string list \<times> outcome" where
  "io_parser fs abspath fs_loc varname isfile ext exists =
     (if \<not> isfile \<and> ext_len ext > 0 then ([io_warning], Return PyNone)
      else
        (case fs_loc of
           PyStr loc \<Rightarrow>
             (let path = abspath loc; kind = fs path in
              if exists \<and> kind = Absent then ([], Raise (SPYIOError path False))
              else if \<not> exists \<and> kind \<noteq> Absent then ([], Raise (SPYIOError path True))
              else if \<not> isfile then ([], io_directory kind path exists)
              else
                (let file_name = basename path in
                 case io_extension file_name ext of
                   Some out \<Rightarrow> ([], out)
                 | None \<Rightarrow> ([], io_file kind path file_name exists)))
         | _ \<Rightarrow> ([], Raise (SPYTypeError fs_loc varname [Lit ''str'']))))"

subsection \<open>\<^verbatim>\<open>data_parser\<close>\<close>








subsection \<open>What a check may do\<close>

text \<open>
  A later store leaves the caller's objects as they were when every cell given out before
  holds what it held. A check ends by raising or by returning \<^verbatim>\<open>None\<close>.
\<close>

definition unchanged :: "state \<Rightarrow> state \<Rightarrow> bool" where
  "unchanged st st' = (fresh st \<le> fresh st' \<and> (\<forall>a < fresh st. cells st' a = cells st a))"

definition raises_or_None :: "outcome \<Rightarrow> bool" where
  "raises_or_None out = (case out of Return x \<Rightarrow> x = PyNone | Raise e \<Rightarrow> True | Fail e \<Rightarrow> True)"

subsection \<open>What the routines ask of their arguments\<close>




























section \<open>Temporary files and HDF5 handles (tests/misc.py)\<close>

text \<open>
  The resources a call holds: the temporary files that exist and the HDF5 files that are
  open, each known by a number; \<open>next_id\<close> is the first number not yet given out.
\<close>

record world =
  tmpfiles :: "nat list"
  handles :: "nat list"
  next_id :: nat

datatype 'a result = Ok 'a | Exc builtin_exc

text \<open>
  \<^verbatim>\<open>with tempfile.NamedTemporaryFile(suffix='.png') as img:\<close> creates a file, runs the
  body, and closes and removes the file when the body is left, by \<^verbatim>\<open>return\<close> or by an
  exception. \<^verbatim>\<open>with h5py.File(name, "w") as h5f:\<close> does the same with a handle.
\<close>

definition with_tempfile :: "world \<Rightarrow> (nat \<Rightarrow> world \<Rightarrow> 'a result \<times> world) \<Rightarrow> 'a result \<times> world" where
  "with_tempfile w body =
     (let img = next_id w;
          (r, w') = body img (w\<lparr>tmpfiles := img # tmpfiles w, next_id := Suc (next_id w)\<rparr>)
      in (r, w'\<lparr>tmpfiles := removeAll img (tmpfiles w')\<rparr>))"

definition h5_open :: "world \<Rightarrow> nat \<times> world" where
  "h5_open w = (next_id w, w\<lparr>handles := next_id w # handles w, next_id := Suc (next_id w)\<rparr>)"

definition h5_close :: "nat \<Rightarrow> world \<Rightarrow> world" where
  "h5_close h w = w\<lparr>handles := removeAll h (handles w)\<rparr>"

definition with_h5file :: "world \<Rightarrow> (nat \<Rightarrow> world \<Rightarrow> 'a result \<times> world) \<Rightarrow> 'a result \<times> world" where
  "with_h5file w body =
     (let (h5f, w1) = h5_open w; (r, w') = body h5f w1 in (r, h5_close h5f w'))"

text \<open>
  \<^verbatim>\<open>figs_equal(fig1, fig2, tol)\<close>. What matplotlib and numpy do is a parameter:
  \<open>savefig\<close> may raise, \<open>imread\<close> gives the pixels of a file or raises, \<open>allclose\<close>
  compares within a tolerance.
  \<^verbatim>\<open>
    with tempfile.NamedTemporaryFile(suffix='.png') as img1:
        with tempfile.NamedTemporaryFile(suffix='.png') as img2:
            fig1.savefig(img1.name)
            fig2.savefig(img2.name)
            if tol is None:
                return np.array_equal(plt.imread(img1.name), plt.imread(img2.name))
            return np.allclose(plt.imread(img1.name), plt.imread(img2.name), atol=tol)
  \<close>
\<close>

definition compare_images :: "(nat \<Rightarrow> builtin_exc + nat list) \<Rightarrow> (nat list \<Rightarrow> nat list \<Rightarrow> real \<Rightarrow> bool)
    \<Rightarrow> nat \<Rightarrow> nat \<Rightarrow> real option \<Rightarrow> bool result" where
  "compare_images imread allclose img1 img2 tol =
     (case imread img1 of
        Inl e \<Rightarrow> Exc e
      | Inr a \<Rightarrow>
          (case imread img2 of
             Inl e \<Rightarrow> Exc e
           | Inr b \<Rightarrow>
               (case tol of None \<Rightarrow> Ok (a = b) | Some t \<Rightarrow> Ok (allclose a b t))))"

definition figs_equal :: "(nat \<Rightarrow> nat \<Rightarrow> builtin_exc option) \<Rightarrow> (nat \<Rightarrow> builtin_exc + nat list)
    \<Rightarrow> (nat list \<Rightarrow> nat list \<Rightarrow> real \<Rightarrow> bool) \<Rightarrow> world \<Rightarrow> nat \<Rightarrow> nat \<Rightarrow> real option
    \<Rightarrow> bool result \<times> world" where
  "figs_equal savefig imread allclose w fig1 fig2 tol =
     with_tempfile w (\<lambda>img1 w1.
       with_tempfile w1 (\<lambda>img2 w2.
         (case savefig fig1 img1 of
            Some e \<Rightarrow> (Exc e, w2)
          | None \<Rightarrow>
              (case savefig fig2 img2 of
                 Some e \<Rightarrow> (Exc e, w2)
               | None \<Rightarrow> (compare_images imread allclose img1 img2 tol, w2)))))"

text \<open>
  \<^verbatim>\<open>generate_artificial_data\<close>, lines 98 to 146: where the data go, then the trial
  definition. In memory no file is touched. Otherwise the container is filled inside a
  \<^verbatim>\<open>with\<close> block (\<open>fill\<close> is how filling it ends: an exception or none), and after
  the block \<^verbatim>\<open>out.data = h5py.File(out.filename, "r+")["data"]\<close> opens the file again
  and keeps the data set of that handle in the object that is returned.
\<close>

definition store_data :: "world \<Rightarrow> bool \<Rightarrow> builtin_exc option \<Rightarrow> unit result \<times> world" where
  "store_data w inmemory fill =
     (if inmemory then (Ok (), w)
      else
        (case with_h5file w (\<lambda>h5f w1. (case fill of Some e \<Rightarrow> Exc e | None \<Rightarrow> Ok (), w1)) of
           (Exc e, w2) \<Rightarrow> (Exc e, w2)
         | (Ok u, w2) \<Rightarrow> (let (h, w3) = h5_open w2 in (Ok (), w3))))"

definition generate_artificial_data :: "world \<Rightarrow> nat \<Rightarrow> bool \<Rightarrow> bool \<Rightarrow> bool
    \<Rightarrow> (nat \<Rightarrow> int) \<Rightarrow> builtin_exc option \<Rightarrow> trialrow list result \<times> world" where
  "generate_artificial_data w nTrials equidistant overlapping inmemory draw fill =
     (case store_data w inmemory fill of
        (Exc e, w') \<Rightarrow> (Exc e, w')
      | (Ok u, w') \<Rightarrow>
          (case trialdefinition nTrials equidistant overlapping draw of
             Inl e \<Rightarrow> (Exc e, w')
           | Inr td \<Rightarrow> (Ok td, w')))"

text \<open>Every name in use was given out before.\<close>

definition names_used :: "world \<Rightarrow> bool" where
  "names_used w = (list_all (\<lambda>n. n < next_id w) (tmpfiles w) \<and> list_all (\<lambda>n. n < next_id w) (handles w))"

definition empty_world :: world where
  "empty_world = \<lparr>tmpfiles = [], handles = [], next_id = 0\<rparr>"

section \<open>Properties of the trial definition\<close>

text \<open>
  C3. The claim: for every \<open>nTrials \<ge> 1\<close> and every combination of the flags, all rows
  satisfy \<open>0 \<le> start < stop \<le> nTrials * 3000\<close>. With a single equidistant, overlapping
  trial the first row is also the last one, both corrections hit it, and the table is
  \<open>[-100, 3100, 1000]\<close>: the trial starts before the data and ends after it.
\<close>

theorem trialdefinition_single_overlapping:
  "trialdefinition 1 True True draw = Inr [(- 100, 3100, 1000)]
   \<and> \<not> row_in_bounds 1 (- 100, 3100, 1000)"
  by (simp add: trialdefinition_def fill_rows_def trial_row_def offsets_def equiOffset_def
      shift_def t_size_def add_start_stop_def row_in_bounds_def)

text \<open>
  Apart from that one table, the rows are within the data: for two or more trials, and
  for a single trial that is not both equidistant and overlapping.
\<close>

lemma fill_rows_nth:
  "i < nTrials \<Longrightarrow> fill_rows nTrials ov offs ! i = trial_row ov offs i"
  by (simp add: fill_rows_def)

lemma trialdefinition_length:
  "trialdefinition nTrials eq ov draw = Inr td \<Longrightarrow> length td = nTrials"
  by (auto simp: trialdefinition_def Let_def fill_rows_def split: if_splits)

lemma trialdefinition_in_bounds:
  assumes n: "1 \<le> nTrials" and single: "\<not> (nTrials = 1 \<and> eq \<and> ov)"
    and draws: "\<forall>i. rng_low \<le> draw i \<and> draw i < rng_high"
    and td: "trialdefinition nTrials eq ov draw = Inr td"
  shows "length td = nTrials \<and> (\<forall>i < nTrials. row_in_bounds nTrials (td ! i))"
proof (intro conjI allI impI)
  show "length td = nTrials" using td by (rule trialdefinition_length)
next
  fix i assume i: "i < nTrials"
  have d: "300 \<le> draw i" "draw i < 600" "300 \<le> draw 0" "draw 0 < 600"
    using draws by (auto simp: rng_low_def rng_high_def)
  have "int i + 1 \<le> int nTrials" using i by simp
  then have m: "(int i + 1) * 3000 \<le> int nTrials * 3000" by simp
  show "row_in_bounds nTrials (td ! i)"
    using td n single i d m
    apply (simp add: trialdefinition_def Let_def split: if_splits)
     apply (auto simp: nth_list_update fill_rows_nth fill_rows_def trial_row_def offsets_def
        equiOffset_def shift_def t_size_def add_start_stop_def set_start_def set_stop_def
        row_in_bounds_def split: if_splits)
    done
qed

lemma trialdefinition_in_bounds_two_overlapping:
  "trialdefinition 2 True True (\<lambda>i. 300) = Inr [(0, 3200, 1000), (2800, 6000, 1000)]
   \<and> row_in_bounds 2 (0, 3200, 1000) \<and> row_in_bounds 2 (2800, 6000, 1000)"
proof -
  have td: "trialdefinition 2 True True (\<lambda>i. 300) = Inr [(0, 3200, 1000), (2800, 6000, 1000)]"
    by (simp add: trialdefinition_def fill_rows_def trial_row_def offsets_def equiOffset_def
        shift_def t_size_def add_start_stop_def upt_rec numeral_2_eq_2)
  have b: "\<forall>i < 2. row_in_bounds 2 ([(0, 3200, 1000), (2800, 6000, 1000)] ! i)"
    using trialdefinition_in_bounds [OF _ _ _ td] by (simp add: rng_low_def rng_high_def)
  have "row_in_bounds 2 ([(0, 3200, 1000), (2800, 6000, 1000)] ! 0)"
    and "row_in_bounds 2 ([(0, 3200, 1000), (2800, 6000, 1000)] ! 1)"
    using b [rule_format, of 0] b [rule_format, of 1] by simp_all
  with td show ?thesis by simp
qed

section \<open>Properties of \<^verbatim>\<open>conda2pip\<close>\<close>

lemma split_lines_line:
  "newline \<notin> set x \<Longrightarrow> split_lines (x @ newline # rest) = x # split_lines rest"
  by (induction x) auto

lemma split_lines_last:
  "newline \<notin> set x \<Longrightarrow> split_lines x = [x]"
  by (induction x) auto

lemma split_join_lines:
  "xs \<noteq> [] \<Longrightarrow> \<forall>x \<in> set xs. newline \<notin> set x \<Longrightarrow> split_lines (join_lines xs) = xs"
  by (induction xs rule: join_lines.induct) (auto simp: split_lines_line split_lines_last)

text \<open>What a call that returns has done: the lists it built and the files it wrote.\<close>

lemma conda2pip_returns:
  assumes "conda2pip fs load script now ymlFile return_lists = (Inr r, fs')"
  shows "\<exists>text ymlObj deps required testing.
      fs ymlFile = Some text \<and> load text = Inr ymlObj \<and> dependencies ymlObj = Inr deps
    \<and> package_lists deps = Inr (required, testing)
    \<and> r = (if return_lists then RetLists required testing else RetNone)
    \<and> fs' = (if testing \<noteq> []
             then (fs(''requirements.txt'' \<mapsto> header_msg script now @ join_lines required))
                    (''requirements-test.txt'' \<mapsto> header_msg script now @ join_lines testing)
             else fs(''requirements.txt'' \<mapsto> header_msg script now @ join_lines required))"
  using assms
  by (auto simp: conda2pip_def Let_def split: option.splits sum.splits prod.splits if_splits)

lemma conda2pip_raises:
  assumes "fs ymlFile = Some text" and "load text = Inr ymlObj"
    and "dependencies ymlObj = Inr deps" and "package_lists deps = Inl e"
  shows "conda2pip fs load script now ymlFile return_lists = (Inl e, fs)"
  using assms by (simp add: conda2pip_def)

lemma all_strs_not_str: "\<not> is_str x \<Longrightarrow> all_strs (x # xs) = None"
  by (cases x) auto

lemma take_Cons_pos: "0 < idx \<Longrightarrow> take idx (x # xs) = x # take (idx - 1) xs"
  by (cases idx) simp_all

lemma pip_lists_keeps_head:
  assumes "pip_lists (x # xs) ca p = Inr (pl, entries', ca')"
  shows "\<exists>ys. entries' = x # ys"
  using assms
  by (auto simp: pip_lists_def take_Cons_pos split: option.splits if_splits sum.splits)

lemma package_lists_head_not_str:
  assumes "\<not> is_str x"
  shows "\<exists>e. package_lists (YSeq (x # xs) ca lc0) = Inl e"
proof (cases "pip_lists (x # xs) ca (find_pipIndex 0 (x # xs) None)")
  case (Inl e)
  then show ?thesis by simp
next
  case (Inr res)
  obtain pl entries' ca' where res: "res = (pl, entries', ca')" by (cases res) auto
  obtain ys where "entries' = x # ys" using pip_lists_keeps_head Inr res by blast
  then have "process_comments (YSeq entries' ca' lc0) = Inl AttributeError"
    using assms by (simp add: all_strs_not_str)
  then show ?thesis using Inr res by (cases pl) simp
qed

lemma find_pipIndex_all_str:
  "list_all is_str xs \<Longrightarrow> find_pipIndex i xs p = p"
  by (induction xs arbitrary: i p) auto

lemma package_lists_only_head_not_str:
  assumes "\<not> is_str x" and "list_all is_str xs"
  shows "package_lists (YSeq (x # xs) ca lc0) = Inl AttributeError"
  using assms by (simp add: find_pipIndex_all_str pip_lists_def all_strs_not_str)

subsection \<open>A well-formed environment is converted\<close>

lemma slot_tokens_ok:
  "list_all (\<lambda>s. s \<noteq> TokenList []) slots \<Longrightarrow> \<exists>ts. slot_tokens slots = Inr ts"
proof (induction slots)
  case Nil
  then show ?case by simp
next
  case (Cons s slots)
  then obtain ts where "slot_tokens slots = Inr ts" by auto
  moreover obtain t where "slot_token s = Inr t"
    using Cons.prems by (cases s rule: slot_token.cases) auto
  ultimately show ?case by simp
qed

lemma scan_tokens_ok:
  "\<exists>c. scan_tokens lineno (Some line0) ts cutoff = Inr c"
  by (induction lineno "Some line0" ts cutoff rule: scan_tokens.induct)
     (auto simp: cutoff_at_def)

lemma scan_comments_ok:
  "no_empty_token_list ca \<Longrightarrow> \<exists>c. scan_comments ca (Some line0) cutoff = Inr c"
proof (induction ca arbitrary: cutoff)
  case Nil
  then show ?case by simp
next
  case (Cons a ca)
  obtain lineno slots where a: "a = (lineno, slots)" by (cases a)
  obtain ts where ts: "slot_tokens slots = Inr ts"
    using Cons.prems a slot_tokens_ok by (auto simp: no_empty_token_list_def)
  obtain c where c: "scan_tokens lineno (Some line0) ts cutoff = Inr c"
    using scan_tokens_ok by blast
  have "no_empty_token_list ca" using Cons.prems by (simp add: no_empty_token_list_def)
  then obtain c' where "scan_comments ca (Some line0) c = Inr c'" using Cons.IH by blast
  then show ?case using a ts c by simp
qed

lemma scan_comments_total:
  assumes "no_empty_token_list ca" and "lc0 = None \<longrightarrow> ca = []"
  shows "\<exists>c. scan_comments ca lc0 cutoff = Inr c"
proof (cases lc0)
  case None
  then show ?thesis using assms by simp
next
  case (Some line0)
  then show ?thesis using assms scan_comments_ok by simp
qed

lemma all_strs_ok: "list_all is_str xs \<Longrightarrow> \<exists>ss. all_strs xs = Some ss"
proof (induction xs)
  case Nil
  then show ?case by simp
next
  case (Cons x xs)
  then obtain s where "x = YStr s" by (cases x) auto
  then show ?case using Cons by auto
qed

lemma process_comments_ok:
  assumes "str_seq y"
  shows "\<exists>needed optional. process_comments y = Inr (needed, optional)"
proof (cases y)
  case (YSeq entries ca lc0)
  then obtain pkgs where p: "all_strs entries = Some pkgs" using assms all_strs_ok by auto
  obtain c where c: "scan_comments ca lc0 None = Inr c"
    using assms YSeq scan_comments_total by (metis str_seq.simps(1))
  show ?thesis using YSeq p c by (cases c) (simp_all add: Let_def)
qed (use assms in simp_all)

lemma find_pipIndex_None:
  "find_pipIndex i xs p = None \<Longrightarrow> list_all is_str xs \<and> p = None"
  by (induction xs arbitrary: i p) (auto split: if_splits)

lemma find_pipIndex_Some:
  "find_pipIndex i xs p = Some idx \<Longrightarrow>
     (list_all is_str xs \<and> p = Some idx) \<or>
     (i \<le> idx \<and> idx - i < length xs \<and> \<not> is_str (xs ! (idx - i)) \<and> list_all is_str (drop (Suc (idx - i)) xs))"
proof (induction xs arbitrary: i p)
  case Nil
  then show ?case by simp
next
  case (Cons x xs)
  from Cons.prems have "find_pipIndex (Suc i) xs (if \<not> is_str x then Some i else p) = Some idx" by simp
  from Cons.IH [OF this] show ?case
  proof
    assume a: "list_all is_str xs \<and> (if \<not> is_str x then Some i else p) = Some idx"
    show ?thesis
    proof (cases "is_str x")
      case True
      then show ?thesis using a by simp
    next
      case False
      then have "idx = i" using a by simp
      then show ?thesis using a False by simp
    qed
  next
    assume a: "Suc i \<le> idx \<and> idx - Suc i < length xs \<and> \<not> is_str (xs ! (idx - Suc i)) \<and>
      list_all is_str (drop (Suc (idx - Suc i)) xs)"
    then have "idx - i = Suc (idx - Suc i)" by arith
    then show ?thesis using a by simp
  qed
qed

lemma no_empty_pop_comments:
  "no_empty_token_list ca \<Longrightarrow> no_empty_token_list (pop_comments idx ca)"
  by (auto simp: no_empty_token_list_def pop_comments_def list_all_iff)

lemma pop_comments_Nil: "pop_comments idx [] = []"
  by (simp add: pop_comments_def)

lemma package_lists_ok:
  assumes "conda_deps deps"
  shows "\<exists>required testing. package_lists deps = Inr (required, testing)"
proof (cases deps)
  case (YSeq entries ca lc0)
  note wf = assms [unfolded YSeq conda_deps.simps]
  show ?thesis
  proof (cases "find_pipIndex 0 entries None")
    case None
    then have "list_all is_str entries" using find_pipIndex_None by blast
    then have "str_seq (YSeq entries ca lc0)" using wf by simp
    then obtain n o' where "process_comments (YSeq entries ca lc0) = Inr (n, o')"
      using process_comments_ok by blast
    then show ?thesis using YSeq None by (simp add: pip_lists_def)
  next
    case (Some idx)
    from find_pipIndex_Some [OF Some]
    have rest: "list_all is_str (drop (Suc idx) entries)" by auto
    from wf Some have idx: "idx \<noteq> 0" and front: "list_all is_str (take idx entries)" by auto
    from wf Some obtain pipSeq where ps: "pip_section (entries ! idx) = Inr pipSeq"
      and pss: "str_seq pipSeq" by (auto split: sum.splits)
    obtain pr pt where pl: "process_comments pipSeq = Inr (pr, pt)"
      using process_comments_ok [OF pss] by blast
    have "str_seq (YSeq (take idx entries @ drop (Suc idx) entries) (pop_comments idx ca) lc0)"
      using wf front rest no_empty_pop_comments by (auto simp: pop_comments_Nil)
    then obtain n o' where
      "process_comments (YSeq (take idx entries @ drop (Suc idx) entries) (pop_comments idx ca) lc0) = Inr (n, o')"
      using process_comments_ok by blast
    then show ?thesis using YSeq Some idx ps pl by (simp add: pip_lists_def)
  qed
qed (use assms in simp_all)

text \<open>
  C2, as the code has it. The claim: every run writes \<^verbatim>\<open>requirements.txt\<close> and
  \<^verbatim>\<open>requirements-test.txt\<close>. The code: for every well-formed environment the run
  returns and has written \<^verbatim>\<open>requirements.txt\<close>, replacing what the file held;
  \<^verbatim>\<open>requirements-test.txt\<close> is written exactly when the list \<^verbatim>\<open>testing\<close> is not
  empty and is left as it was otherwise; no other file changes.
\<close>

theorem conda2pip_writes_requirements:
  assumes "fs ymlFile = Some text" and "load text = Inr ymlObj"
    and "dependencies ymlObj = Inr deps" and "conda_deps deps"
  shows "\<exists>required testing fs'.
      package_lists deps = Inr (required, testing)
    \<and> conda2pip fs load script now ymlFile return_lists =
        (Inr (if return_lists then RetLists required testing else RetNone), fs')
    \<and> fs' ''requirements.txt'' = Some (header_msg script now @ join_lines required)
    \<and> fs' ''requirements-test.txt'' =
        (if testing \<noteq> [] then Some (header_msg script now @ join_lines testing)
         else fs ''requirements-test.txt'')
    \<and> (\<forall>f. f \<noteq> ''requirements.txt'' \<and> f \<noteq> ''requirements-test.txt'' \<longrightarrow> fs' f = fs f)"
proof -
  obtain required testing where pl: "package_lists deps = Inr (required, testing)"
    using package_lists_ok [OF assms(4)] by blast
  show ?thesis
    using assms(1-3) pl by (simp add: conda2pip_def Let_def)
qed

theorem conda2pip_writes_requirements_witness:
  "conda_deps (deps_of env_docstring)
   \<and> fst (main cwd_files (loads_as env_docstring) ''conda2pip.py'' ''05/10/2020 at 11:11:21'') = Inr RetNone
   \<and> snd (main cwd_files (loads_as env_docstring) ''conda2pip.py'' ''05/10/2020 at 11:11:21'')
        ''requirements.txt''
      = Some (header_msg ''conda2pip.py'' ''05/10/2020 at 11:11:21''
              @ join_lines [''numpy >= 1.15'', ''scipy >= 1.5, < 1.6''])
   \<and> snd (main cwd_files (loads_as env_docstring) ''conda2pip.py'' ''05/10/2020 at 11:11:21'')
        ''requirements-test.txt''
      = Some (header_msg ''conda2pip.py'' ''05/10/2020 at 11:11:21''
              @ join_lines [''sphinx_automodapi'', ''matplotlib >= 3.3, < 3.5''])"
proof -
  have wf: "conda_deps (deps_of env_docstring)" by code_simp
  have d: "dependencies env_docstring = Inr (deps_of env_docstring)" by code_simp
  have f: "cwd_files ''syncopy.yml'' = Some ''dependencies: ...''" by (simp add: cwd_files_def)
  have l: "loads_as env_docstring ''dependencies: ...'' = Inr env_docstring" by (simp add: loads_as_def)
  have pl: "package_lists (deps_of env_docstring)
      = Inr ([''numpy >= 1.15'', ''scipy >= 1.5, < 1.6''], [''sphinx_automodapi'', ''matplotlib >= 3.3, < 3.5''])"
    by code_simp
  from conda2pip_writes_requirements [where fs = cwd_files and ymlFile = "''syncopy.yml''"
      and load = "loads_as env_docstring" and script = "''conda2pip.py''"
      and now = "''05/10/2020 at 11:11:21''" and return_lists = False, OF f l d wf]
  show ?thesis using wf pl by (elim exE conjE) (simp add: main_def)
qed

text \<open>
  C2, as stated, fails: an environment without a comment marks no package as needed for
  testing only, the script returns, and no \<^verbatim>\<open>requirements-test.txt\<close> exists afterwards.
\<close>

theorem requirements_test_not_written:
  "fst (main cwd_files (loads_as env_plain) ''conda2pip.py'' ''05/10/2020 at 11:11:21'') = Inr RetNone
   \<and> snd (main cwd_files (loads_as env_plain) ''conda2pip.py'' ''05/10/2020 at 11:11:21'')
        ''requirements-test.txt'' = None"
proof -
  have d: "dependencies env_plain = Inr (deps_of env_plain)" by code_simp
  have pl: "package_lists (deps_of env_plain)
      = Inr ([''numpy >= 1.15'', ''scipy >= 1.5, < 1.6''], [])" by code_simp
  show ?thesis
    by (simp add: main_def conda2pip_def cwd_files_def loads_as_def d pl)
qed

subsection \<open>The text of a written file\<close>

lemma no_newline_header_line2: "no_newline header_line2"
  by (simp add: no_newline_def header_line2_def newline_def)

lemma no_newline_header_line1:
  "no_newline script \<Longrightarrow> no_newline now \<Longrightarrow> no_newline (header_line1 script now)"
  by (auto simp: no_newline_def header_line1_def newline_def)

lemma requirements_text_lines:
  assumes "no_newline script" and "no_newline now" and "list_all no_newline pkgs"
  shows "split_lines (requirements_text script now pkgs) =
    header_line1 script now # header_line2 # (if pkgs = [] then [[]] else pkgs)"
proof -
  have 1: "newline \<notin> set (header_line1 script now)"
    using assms no_newline_header_line1 by (simp add: no_newline_def)
  have 2: "newline \<notin> set header_line2"
    using no_newline_header_line2 by (simp add: no_newline_def)
  have 3: "split_lines (join_lines pkgs) = (if pkgs = [] then [[]] else pkgs)"
    using assms(3) split_join_lines [of pkgs] by (auto simp: list_all_iff no_newline_def)
  show ?thesis
    by (simp add: requirements_text_def split_lines_line [OF 1] split_lines_line [OF 2] 3)
qed

text \<open>
  C5, as the code has it. Every requirements file a run produces holds the header (a
  line that names the script and the time, a line that warns not to edit) and then the
  entries joined by line breaks: where the name of the script, the time and the entries
  hold no line break themselves, the lines of the file are the two header lines followed
  by one line per entry.
\<close>

theorem requirements_file_format:
  assumes "conda2pip fs load script now ymlFile return_lists = (Inr r, fs')"
  shows "\<exists>text ymlObj deps required testing.
      fs ymlFile = Some text \<and> load text = Inr ymlObj \<and> dependencies ymlObj = Inr deps
    \<and> package_lists deps = Inr (required, testing)
    \<and> fs' ''requirements.txt'' = Some (requirements_text script now required)
    \<and> (testing \<noteq> [] \<longrightarrow> fs' ''requirements-test.txt'' = Some (requirements_text script now testing))
    \<and> (no_newline script \<and> no_newline now \<longrightarrow>
         (list_all no_newline required \<longrightarrow>
            split_lines (requirements_text script now required) =
              header_line1 script now # header_line2 # (if required = [] then [[]] else required))
       \<and> (list_all no_newline testing \<longrightarrow>
            split_lines (requirements_text script now testing) =
              header_line1 script now # header_line2 # (if testing = [] then [[]] else testing)))"
proof -
  from conda2pip_returns [OF assms] obtain content ymlObj deps required testing where
      1: "fs ymlFile = Some content" "load content = Inr ymlObj" "dependencies ymlObj = Inr deps"
        "package_lists deps = Inr (required, testing)"
    and 2: "fs' = (if testing \<noteq> []
             then (fs(''requirements.txt'' \<mapsto> header_msg script now @ join_lines required))
                    (''requirements-test.txt'' \<mapsto> header_msg script now @ join_lines testing)
             else fs(''requirements.txt'' \<mapsto> header_msg script now @ join_lines required))"
    by blast
  have 3: "fs' ''requirements.txt'' = Some (requirements_text script now required)"
    using 2 by (simp add: requirements_text_def header_msg_def)
  have 4: "testing \<noteq> [] \<longrightarrow> fs' ''requirements-test.txt'' = Some (requirements_text script now testing)"
    using 2 by (simp add: requirements_text_def header_msg_def)
  show ?thesis
    using 1 3 4 requirements_text_lines by blast
qed

theorem requirements_file_format_witness:
  "snd (main cwd_files (loads_as env_docstring) ''conda2pip.py'' ''05/10/2020 at 11:11:21'')
        ''requirements-test.txt''
      = Some (requirements_text ''conda2pip.py'' ''05/10/2020 at 11:11:21''
                [''sphinx_automodapi'', ''matplotlib >= 3.3, < 3.5''])
   \<and> split_lines (requirements_text ''conda2pip.py'' ''05/10/2020 at 11:11:21''
                [''sphinx_automodapi'', ''matplotlib >= 3.3, < 3.5''])
      = [''# This file was auto-generated by conda2pip.py on 05/10/2020 at 11:11:21. '',
         ''# Do not edit, all of your changes will be overwritten. '',
         ''sphinx_automodapi'', ''matplotlib >= 3.3, < 3.5'']"
proof -
  have d: "dependencies env_docstring = Inr (deps_of env_docstring)" by code_simp
  have pl: "package_lists (deps_of env_docstring)
      = Inr ([''numpy >= 1.15'', ''scipy >= 1.5, < 1.6''], [''sphinx_automodapi'', ''matplotlib >= 3.3, < 3.5''])"
    by code_simp
  obtain r fs' where run: "conda2pip cwd_files (loads_as env_docstring) ''conda2pip.py''
      ''05/10/2020 at 11:11:21'' ''syncopy.yml'' False = (Inr r, fs')"
    by (simp add: conda2pip_def cwd_files_def loads_as_def d pl Let_def)
  have n: "no_newline ''conda2pip.py''" "no_newline ''05/10/2020 at 11:11:21''"
    "list_all no_newline [''sphinx_automodapi'', ''matplotlib >= 3.3, < 3.5'']"
    by (simp_all add: no_newline_def newline_def)
  have h: "header_line1 ''conda2pip.py'' ''05/10/2020 at 11:11:21'' =
      ''# This file was auto-generated by conda2pip.py on 05/10/2020 at 11:11:21. ''"
    "header_line2 = ''# Do not edit, all of your changes will be overwritten. ''"
    by (simp_all add: header_line1_def header_line2_def)
  from requirements_file_format [OF run] show ?thesis
    using d pl n by (elim exE conjE) (simp add: main_def run loads_as_def h)
qed

text \<open>
  C5, as stated, fails for an entry that holds a line break: the entries are written as
  they are, and the one entry of this environment takes two lines of the file.
\<close>

theorem requirements_entry_line_break:
  "fst (conda2pip cwd_files (loads_as env_line_break) ''conda2pip.py'' ''05/10/2020 at 11:11:21''
          ''syncopy.yml'' True)
     = Inr (RetLists [''numpy'' @ [newline] @ ''scipy''] [])
   \<and> snd (conda2pip cwd_files (loads_as env_line_break) ''conda2pip.py'' ''05/10/2020 at 11:11:21''
          ''syncopy.yml'' True) ''requirements.txt''
     = Some (requirements_text ''conda2pip.py'' ''05/10/2020 at 11:11:21''
               [''numpy'' @ [newline] @ ''scipy''])
   \<and> split_lines (requirements_text ''conda2pip.py'' ''05/10/2020 at 11:11:21''
               [''numpy'' @ [newline] @ ''scipy''])
     = [''# This file was auto-generated by conda2pip.py on 05/10/2020 at 11:11:21. '',
        ''# Do not edit, all of your changes will be overwritten. '',
        ''numpy'', ''scipy'']"
proof -
  have d: "dependencies env_line_break = Inr (deps_of env_line_break)" by code_simp
  have pl: "package_lists (deps_of env_line_break) = Inr ([''numpy'' @ [newline] @ ''scipy''], [])"
    by code_simp
  have r: "conda2pip cwd_files (loads_as env_line_break) ''conda2pip.py'' ''05/10/2020 at 11:11:21''
          ''syncopy.yml'' True
      = (Inr (RetLists [''numpy'' @ [newline] @ ''scipy''] []),
         cwd_files(''requirements.txt'' \<mapsto> requirements_text ''conda2pip.py''
           ''05/10/2020 at 11:11:21'' [''numpy'' @ [newline] @ ''scipy'']))"
    by (simp add: conda2pip_def cwd_files_def loads_as_def d pl Let_def requirements_text_def
        header_msg_def)
  have s: "split_lines (requirements_text ''conda2pip.py'' ''05/10/2020 at 11:11:21''
               [''numpy'' @ [newline] @ ''scipy''])
     = [''# This file was auto-generated by conda2pip.py on 05/10/2020 at 11:11:21. '',
        ''# Do not edit, all of your changes will be overwritten. '',
        ''numpy'', ''scipy'']"
    by (simp add: requirements_text_def header_line1_def header_line2_def newline_def)
  from r s show ?thesis by simp
qed

subsection \<open>A \<^verbatim>\<open>pip:\<close> section in first place\<close>

text \<open>
  C7. For every input whose first entry of \<^verbatim>\<open>dependencies\<close> is the \<^verbatim>\<open>pip:\<close>
  mapping (or any entry that is not a string), the packages of that section reach neither
  output: index 0 is not popped, the mapping stays among the conda entries, and
  \<^verbatim>\<open>_process_comments\<close> raises when it calls \<^verbatim>\<open>startswith\<close> on it. The run ends
  in an exception, returns no list and writes no file.
\<close>

theorem pip_section_first_no_output:
  assumes "fs ymlFile = Some content" and "load content = Inr ymlObj"
    and "dependencies ymlObj = Inr (YSeq (first # rest) ca lc0)" and "\<not> is_str first"
  shows "(\<exists>e. conda2pip fs load script now ymlFile return_lists = (Inl e, fs))
       \<and> (list_all is_str rest \<longrightarrow>
            conda2pip fs load script now ymlFile return_lists = (Inl AttributeError, fs))"
proof -
  obtain e where "package_lists (YSeq (first # rest) ca lc0) = Inl e"
    using package_lists_head_not_str [OF assms(4)] by blast
  then have 1: "conda2pip fs load script now ymlFile return_lists = (Inl e, fs)"
    using assms(1-3) by (rule conda2pip_raises [rotated 3])
  have 2: "list_all is_str rest \<longrightarrow>
      conda2pip fs load script now ymlFile return_lists = (Inl AttributeError, fs)"
    using assms conda2pip_raises package_lists_only_head_not_str by blast
  from 1 2 show ?thesis by blast
qed

theorem pip_section_first_no_output_witness:
  "\<not> is_str (YMap [(''pip'', YSeq [YStr ''sphinx_automodapi''] [] (Some 2))])
   \<and> main cwd_files (loads_as env_pip_first) ''conda2pip.py'' ''05/10/2020 at 11:11:21''
       = (Inl AttributeError, cwd_files)"
proof -
  have f: "cwd_files ''syncopy.yml'' = Some ''dependencies: ...''" by (simp add: cwd_files_def)
  have l: "loads_as env_pip_first ''dependencies: ...'' = Inr env_pip_first" by (simp add: loads_as_def)
  have d: "dependencies env_pip_first =
      Inr (YSeq (YMap [(''pip'', YSeq [YStr ''sphinx_automodapi''] [] (Some 2))] # [YStr ''numpy >= 1.15''])
             [] (Some 1))"
    by (simp add: env_pip_first_def)
  have n: "\<not> is_str (YMap [(''pip'', YSeq [YStr ''sphinx_automodapi''] [] (Some 2))])" by simp
  from pip_section_first_no_output [where fs = cwd_files and ymlFile = "''syncopy.yml''"
      and load = "loads_as env_pip_first" and script = "''conda2pip.py''"
      and now = "''05/10/2020 at 11:11:21''" and return_lists = False, OF f l d n]
  show ?thesis using n by (simp add: main_def)
qed

section \<open>Properties of \<^verbatim>\<open>scalar_parser\<close>\<close>

lemma cells_alloc_new: "cells (snd (alloc st v)) (fst (alloc st v)) = v"
  by (simp add: alloc_def)

lemma float_not_dict_attribute: "''float'' \<notin> set dict_attributes"
  by (simp add: dict_attributes_def)

text \<open>
  C9. The docstring offers \<^verbatim>\<open>lims = [-np.inf, np.inf]\<close> to make sure that \<open>var\<close> is
  finite, and \<^verbatim>\<open>ntype\<close> to name a built-in type. Asked whether the float \<^verbatim>\<open>inf\<close> is a
  \<^verbatim>\<open>float\<close> within these bounds, the call ends in \<^verbatim>\<open>AttributeError\<close>: the type is
  looked up in \<^verbatim>\<open>__builtins__\<close>, which is a dictionary in the imported module, and
  the bounds are never looked at. Without \<^verbatim>\<open>ntype\<close> the same call raises
  \<^verbatim>\<open>SPYValueError\<close>.
\<close>

theorem scalar_parser_float_name_fails:
  "\<not> isfinite (PyFloat PInf)
   \<and> fst (scalar_parser builtins (store_of [PyFloat PInf, PyList [PyFloat NInf, PyFloat PInf]])
          0 ''freq'' (Some ''float'') 1)
     = Fail AttributeError
   \<and> is_spy_value_error
       (fst (scalar_parser builtins (store_of [PyFloat PInf, PyList [PyFloat NInf, PyFloat PInf]])
          0 ''freq'' None 1))"
proof -
  let ?st = "store_of [PyFloat PInf, PyList [PyFloat NInf, PyFloat PInf]]"
  have c: "cells ?st 0 = PyFloat PInf" "cells ?st 1 = PyList [PyFloat NInf, PyFloat PInf]"
    "cells ?st (Suc 0) = PyList [PyFloat NInf, PyFloat PInf]"
    by (simp_all add: store_of_def)
  have 1: "\<not> isfinite (PyFloat PInf)" by (simp add: isfinite_def)
  have 2: "fst (scalar_parser builtins ?st 0 ''freq'' (Some ''float'') 1) = Fail AttributeError"
    using float_not_dict_attribute
    by (simp add: scalar_parser_def c check_ntype_def builtins_def Let_def)
  have 3: "is_spy_value_error (fst (scalar_parser builtins ?st 0 ''freq'' None 1))"
    by (simp add: scalar_parser_def c check_ntype_def Let_def split_beta cells_alloc_new
        scalar_val_def check_scalar_bounds_def np_less_def num_less.simps complex_less_def
        raise_scalar_bounds_def isfinite_def)
  from 1 2 3 show ?thesis by simp
qed

section \<open>Properties of \<^verbatim>\<open>array_parser\<close>\<close>

lemma bound_values_finite_elems_none:
  "list_all (\<lambda>x. \<not> isfinite x) (arr_elems arr) \<Longrightarrow> bound_values (finite_elems arr) = []"
  by (simp add: finite_elems_def bound_values_def Let_def filter_empty_conv list_all_iff)

text \<open>
  C8, as the code has it. With bounds given, an array none of whose elements is finite
  (among them the array without elements), and the checks of type, \<^verbatim>\<open>hasinf\<close> and
  \<^verbatim>\<open>hasnan\<close> passed, the call ends in a built-in exception and not in one of the three
  error kinds: \<^verbatim>\<open>fi_arr\<close> is empty and \<^verbatim>\<open>min()\<close> raises \<^verbatim>\<open>ValueError\<close> (for an array
  of strings or objects \<^verbatim>\<open>np.isfinite\<close> raises \<^verbatim>\<open>TypeError\<close> before that). \<open>arr\<close> is
  the array numpy builds from \<open>var\<close>.
\<close>

theorem array_parser_all_nonfinite:
  assumes "is_array_like (cells st var)" and "cells st lims \<noteq> PyNone"
    and "np_array (cells st var) = Inr arr"
    and "list_all (\<lambda>x. \<not> isfinite x) (arr_elems arr)"
    and "check_array_ntype dt arr varname (if ntype = None then Some ''numeric'' else ntype) = None"
    and "check_hasinf arr varname hasinf = None"
    and "check_hasnan arr varname hasnan = None"
  shows "fst (array_parser dt st var varname ntype hasinf hasnan lims dims) =
           Fail (if has_ufunc (arr_dtype arr) then ValueError else TypeError)"
  using assms
  by (simp add: array_parser_def Let_def split_beta alloc_def check_array_bounds_def
      bound_values_finite_elems_none)

theorem array_parser_all_nonfinite_witness:
  "list_all (\<lambda>x. \<not> isfinite x) [PyFloat NaN, PyFloat PInf]
   \<and> fst (array_parser dtype_names
            (store_of [PyList [PyFloat NaN, PyFloat PInf], PyList [PyInt 0, PyInt 10]])
            0 ''time'' None None None 1 None) = Fail ValueError"
proof -
  let ?st = "store_of [PyList [PyFloat NaN, PyFloat PInf], PyList [PyInt 0, PyInt 10]]"
  have c: "cells ?st 0 = PyList [PyFloat NaN, PyFloat PInf]" "cells ?st 1 = PyList [PyInt 0, PyInt 10]"
    "cells ?st (Suc 0) = PyList [PyInt 0, PyInt 10]"
    by (simp_all add: store_of_def)
  have a: "np_array (PyList [PyFloat NaN, PyFloat PInf]) = Inr (PyArr DFloat [2] [PyFloat NaN, PyFloat PInf])"
    by (simp add: np_array_def join_shapes_def promote_def join_dtype_def Let_def)
  have n: "list_all (\<lambda>x. \<not> isfinite x) [PyFloat NaN, PyFloat PInf]"
    by (simp add: isfinite_def)
  from array_parser_all_nonfinite [of ?st 0 1 "PyArr DFloat [2] [PyFloat NaN, PyFloat PInf]"
      dtype_names "''time''" None None None None]
  show ?thesis
    using n by (simp add: c a check_array_ntype_def is_numeric_def check_hasinf_def check_hasnan_def
        check_has_def has_ufunc_def)
qed

text \<open>
  C8, as stated, fails for a call that also asks for \<^verbatim>\<open>hasinf=False\<close>: that check comes
  before the bounds and raises \<^verbatim>\<open>SPYValueError\<close> for the array \<^verbatim>\<open>[inf]\<close>; the reduction
  is never reached.
\<close>

theorem array_parser_hasinf_first:
  "list_all (\<lambda>x. \<not> isfinite x) [PyFloat PInf]
   \<and> fst (array_parser dtype_names (store_of [PyList [PyFloat PInf], PyList [PyInt 0, PyInt 10]])
          0 ''time'' None (Some False) None 1 None)
     = Raise (SPYValueError [Lit ''finite numerical array''] ''time''
         (Some [Lit ''array with '', StrOf (PyInt 1), Lit ('' '' @ [CHR 0x60] @ ''inf'' @ [CHR 0x60] @ '' entries'')]))"
  by (simp add: array_parser_def store_of_def np_array_def join_shapes_def promote_def join_dtype_def
      isfinite_def check_array_ntype_def is_numeric_def check_hasinf_def check_has_def has_ufunc_def
      isinf_def Let_def alloc_def)

section \<open>The parsers are checks\<close>

lemma unchanged_refl: "unchanged st st"
  by (simp add: unchanged_def)

lemma unchanged_alloc: "unchanged st (snd (alloc st x))"
  by (simp add: unchanged_def alloc_def)

lemma unchanged_trans: "unchanged st st1 \<Longrightarrow> unchanged st1 st2 \<Longrightarrow> unchanged st st2"
  by (auto simp: unchanged_def)

lemma unchanged_alloc2: "unchanged st (snd (alloc (snd (alloc st x)) y))"
  using unchanged_alloc unchanged_trans by blast

lemma raises_or_None_simps:
  "raises_or_None (Raise e)" "raises_or_None (Fail x)" "raises_or_None (Return PyNone)"
  by (simp_all add: raises_or_None_def)

lemma raise_scalar_bounds_no_value: "raises_or_None (raise_scalar_bounds v varname l)"
  by (simp add: raise_scalar_bounds_def raises_or_None_def split: sum.splits)

lemma check_scalar_bounds_no_value: "raises_or_None (check_scalar_bounds v varname l val)"
  using raise_scalar_bounds_no_value [of v varname l]
  by (simp add: check_scalar_bounds_def raises_or_None_simps split: sum.splits bool.splits)

lemma check_ntype_no_value: "check_ntype bi v varname ntype = Some out \<Longrightarrow> raises_or_None out"
  by (auto simp: check_ntype_def raises_or_None_def split: option.splits if_splits sum.splits)

lemma scalar_parser_pure:
  "raises_or_None (fst (scalar_parser bi st var varname ntype lims))
   \<and> unchanged st (snd (scalar_parser bi st var varname ntype lims))"
  using check_scalar_bounds_no_value check_ntype_no_value [of bi "cells st var" varname ntype]
  by (auto simp: scalar_parser_def Let_def split_beta unchanged_refl unchanged_alloc raises_or_None_def
      split: option.splits)

lemma check_array_ntype_no_value:
  "check_array_ntype dt arr varname ntype = Some out \<Longrightarrow> raises_or_None out"
  by (auto simp: check_array_ntype_def raises_or_None_def split: option.splits if_splits sum.splits)

lemma check_has_no_value:
  "check_has test a b c d arr varname has = Some out \<Longrightarrow> raises_or_None out"
  by (auto simp: check_has_def raises_or_None_def Let_def split: option.splits if_splits)

lemma raise_array_bounds_no_value: "raises_or_None (raise_array_bounds varname l)"
  by (simp add: raise_array_bounds_def raises_or_None_def split: sum.splits)

lemma check_array_bounds_cases:
  "case check_array_bounds fi varname l of None \<Rightarrow> True | Some out \<Rightarrow> raises_or_None out"
  by (simp add: check_array_bounds_def Let_def raises_or_None_simps raise_array_bounds_no_value
      split: list.splits sum.splits bool.splits)

lemma check_array_bounds_no_value:
  "check_array_bounds fi varname l = Some out \<Longrightarrow> raises_or_None out"
  using check_array_bounds_cases [of fi varname l] by simp

lemma check_dims_cases:
  "case check_dims arr varname dims of None \<Rightarrow> True | Some out \<Rightarrow> raises_or_None out"
  by (simp add: check_dims_def Let_def raises_or_None_simps split: option.splits dims_arg.splits)

lemma check_dims_no_value:
  "check_dims arr varname dims = Some out \<Longrightarrow> raises_or_None out"
  using check_dims_cases [of arr varname dims] by simp

lemma array_parser_unchanged:
  "unchanged st (snd (array_parser dt st var varname ntype hasinf hasnan lims dims))"
  by (simp add: array_parser_def Let_def split_beta unchanged_refl unchanged_alloc unchanged_alloc2
      split: option.splits sum.splits)

text \<open>What a call of \<^verbatim>\<open>array_parser\<close> comes to once numpy has built the array.\<close>

lemma array_parser_built:
  assumes "is_array_like (cells st var)" and "np_array (cells st var) = Inr arr"
  shows "fst (array_parser dt st var varname ntype hasinf hasnan lims dims) =
      (case check_array_ntype dt arr varname
              (if cells st lims \<noteq> PyNone \<and> ntype = None then Some ''numeric'' else ntype) of
         Some out \<Rightarrow> out | None \<Rightarrow>
       (case check_hasinf arr varname hasinf of Some out \<Rightarrow> out | None \<Rightarrow>
        (case check_hasnan arr varname hasnan of Some out \<Rightarrow> out | None \<Rightarrow>
         (if cells st lims = PyNone
          then (case check_dims arr varname dims of Some out \<Rightarrow> out | None \<Rightarrow> Return PyNone)
          else if \<not> has_ufunc (arr_dtype arr) then Fail TypeError
          else (case check_array_bounds (finite_elems arr) varname (cells st lims) of
                  Some out \<Rightarrow> out
                | None \<Rightarrow>
                   (case check_dims arr varname dims of Some out \<Rightarrow> out | None \<Rightarrow> Return PyNone))))))"
  using assms
  by (simp add: array_parser_def Let_def split_beta cells_alloc_new split: option.splits)

lemma array_parser_no_value:
  "raises_or_None (fst (array_parser dt st var varname ntype hasinf hasnan lims dims))"
proof (cases "is_array_like (cells st var)")
  case False
  then show ?thesis by (simp add: array_parser_def Let_def raises_or_None_simps)
next
  case al: True
  show ?thesis
  proof (cases "np_array (cells st var)")
    case (Inl e)
    then show ?thesis using al by (simp add: array_parser_def Let_def raises_or_None_simps)
  next
    case (Inr arr)
    define nt where "nt = (if cells st lims \<noteq> PyNone \<and> ntype = None then Some ''numeric'' else ntype)"
    note f = array_parser_built [OF al Inr, of dt varname ntype hasinf hasnan lims dims, folded nt_def]
    have d: "raises_or_None (case check_dims arr varname dims of
        Some out \<Rightarrow> out | None \<Rightarrow> Return PyNone)"
      using check_dims_cases [of arr varname dims]
      by (simp add: raises_or_None_simps split: option.splits)
    show ?thesis
    proof (cases "check_array_ntype dt arr varname nt")
      case (Some out)
      then show ?thesis using check_array_ntype_no_value [OF Some] by (simp add: f)
    next
      case nt_ok: None
      show ?thesis
      proof (cases "check_hasinf arr varname hasinf")
        case (Some out)
        then have "raises_or_None out" using check_has_no_value by (simp add: check_hasinf_def)
        then show ?thesis using nt_ok Some by (simp add: f)
      next
        case inf_ok: None
        show ?thesis
        proof (cases "check_hasnan arr varname hasnan")
          case (Some out)
          then have "raises_or_None out" using check_has_no_value by (simp add: check_hasnan_def)
          then show ?thesis using nt_ok inf_ok Some by (simp add: f)
        next
          case nan_ok: None
          show ?thesis
          proof (cases "check_array_bounds (finite_elems arr) varname (cells st lims)")
            case (Some out)
            then show ?thesis
              using nt_ok inf_ok nan_ok d check_array_bounds_no_value [OF Some]
              by (simp add: f raises_or_None_simps)
          next
            case None
            then show ?thesis using nt_ok inf_ok nan_ok d
              by (simp add: f raises_or_None_simps)
          qed
        qed
      qed
    qed
  qed
qed

text \<open>
  C6. \<^verbatim>\<open>scalar_parser\<close> and \<^verbatim>\<open>array_parser\<close> either raise or return \<^verbatim>\<open>None\<close>, and
  in both cases the objects behind \<open>var\<close> and \<open>lims\<close>, like every object of the caller,
  are what they were: the arrays the parsers build go to new cells and nothing is
  written back.
\<close>

theorem parsers_are_pure_checks:
  assumes "var < fresh st" and "lims < fresh st"
  shows "raises_or_None (fst (scalar_parser bi st var varname ntype lims))
     \<and> cells (snd (scalar_parser bi st var varname ntype lims)) var = cells st var
     \<and> cells (snd (scalar_parser bi st var varname ntype lims)) lims = cells st lims
     \<and> unchanged st (snd (scalar_parser bi st var varname ntype lims))
     \<and> raises_or_None (fst (array_parser dt st var varname antype hasinf hasnan lims dims))
     \<and> cells (snd (array_parser dt st var varname antype hasinf hasnan lims dims)) var = cells st var
     \<and> cells (snd (array_parser dt st var varname antype hasinf hasnan lims dims)) lims = cells st lims
     \<and> unchanged st (snd (array_parser dt st var varname antype hasinf hasnan lims dims))"
proof -
  have s: "unchanged st (snd (scalar_parser bi st var varname ntype lims))"
    and sv: "raises_or_None (fst (scalar_parser bi st var varname ntype lims))"
    using scalar_parser_pure by blast+
  have a: "unchanged st (snd (array_parser dt st var varname antype hasinf hasnan lims dims))"
    by (rule array_parser_unchanged)
  have av: "raises_or_None (fst (array_parser dt st var varname antype hasinf hasnan lims dims))"
    by (rule array_parser_no_value)
  have k: "unchanged st st' \<Longrightarrow> cells st' var = cells st var \<and> cells st' lims = cells st lims" for st'
    using assms by (simp add: unchanged_def)
  from k [OF s] k [OF a] s sv a av show ?thesis by simp
qed

theorem parsers_are_pure_checks_witness:
  "cells (snd (array_parser dtype_names
           (store_of [PyList [PyFloat (Fin 1), PyFloat NaN], PyList [PyInt 0, PyInt 10]])
           0 ''time'' None None None 1 (Some (DimsInt 1)))) 0
     = PyList [PyFloat (Fin 1), PyFloat NaN]
   \<and> cells (snd (scalar_parser builtins (store_of [PyInt 440, PyList [PyInt 10, PyInt 1000]])
           0 ''freq'' (Some ''int_like'') 1)) 1
     = PyList [PyInt 10, PyInt 1000]
   \<and> raises_or_None (fst (scalar_parser builtins (store_of [PyInt 440, PyList [PyInt 10, PyInt 1000]])
           0 ''freq'' (Some ''int_like'') 1))"
  using parsers_are_pure_checks [of 0 "store_of [PyList [PyFloat (Fin 1), PyFloat NaN], PyList [PyInt 0, PyInt 10]]"
      1 builtins "''time''" None dtype_names None None None "Some (DimsInt 1)"]
    parsers_are_pure_checks [of 0 "store_of [PyInt 440, PyList [PyInt 10, PyInt 1000]]"
      1 builtins "''freq''" "Some ''int_like''" dtype_names None None None None]
  by (simp add: store_of_def)

section \<open>How the parsers signal an invalid input\<close>

subsection \<open>\<^verbatim>\<open>io_parser\<close> and \<^verbatim>\<open>data_parser\<close>\<close>






subsection \<open>Comparisons without rounding\<close>







subsection \<open>\<^verbatim>\<open>scalar_parser\<close>\<close>









subsection \<open>\<^verbatim>\<open>array_parser\<close>\<close>


















subsection \<open>The four routines\<close>





section \<open>Temporary files and handles after a call\<close>

lemma removeAll_fresh: "list_all (\<lambda>n. n < k) xs \<Longrightarrow> k \<le> j \<Longrightarrow> removeAll (j::nat) xs = xs"
  by (induction xs) auto

lemma figs_equal_world:
  assumes "names_used w"
  shows "snd (figs_equal savefig imread allclose w fig1 fig2 tol) = w\<lparr>next_id := Suc (Suc (next_id w))\<rparr>"
proof -
  have 1: "removeAll (next_id w) (tmpfiles w) = tmpfiles w"
    "removeAll (Suc (next_id w)) (tmpfiles w) = tmpfiles w"
    using assms by (simp_all add: names_used_def removeAll_fresh [of "next_id w"])
  show ?thesis
    by (simp add: figs_equal_def with_tempfile_def Let_def split_beta 1
        split: option.splits)
qed

lemma store_data_world:
  assumes "names_used w"
  shows "snd (store_data w inmemory fill) =
     (if inmemory then w
      else if fill = None
        then w\<lparr>handles := Suc (next_id w) # handles w, next_id := Suc (Suc (next_id w))\<rparr>
      else w\<lparr>next_id := Suc (next_id w)\<rparr>)"
proof -
  have 1: "removeAll (next_id w) (handles w) = handles w"
    using assms by (simp add: names_used_def removeAll_fresh [of "next_id w"])
  show ?thesis
    by (cases fill)
       (simp_all add: store_data_def with_h5file_def h5_open_def h5_close_def Let_def split_beta 1)
qed

lemma generate_artificial_data_world:
  "snd (generate_artificial_data w nTrials equidistant overlapping inmemory draw fill) =
     snd (store_data w inmemory fill)"
  by (simp add: generate_artificial_data_def split: prod.splits result.splits sum.splits)

text \<open>
  C4, as the code has it. However \<^verbatim>\<open>figs_equal\<close> ends (saving or reading may raise),
  its two temporary files are gone and no handle is open that was not open before.
  \<^verbatim>\<open>generate_artificial_data\<close> leaves no temporary file; the handle it opens for
  writing is closed when the \<^verbatim>\<open>with\<close> block is left, by its end or by an exception;
  the handle it opens after the block in mode \<^verbatim>\<open>"r+"\<close> is open when the function
  returns, and it is the only one.
\<close>

theorem resources_released:
  assumes "names_used w"
  shows "tmpfiles (snd (figs_equal savefig imread allclose w fig1 fig2 tol)) = tmpfiles w
     \<and> handles (snd (figs_equal savefig imread allclose w fig1 fig2 tol)) = handles w
     \<and> tmpfiles (snd (generate_artificial_data w nTrials equidistant overlapping inmemory draw fill))
         = tmpfiles w
     \<and> next_id w \<notin> set (handles (snd (generate_artificial_data w nTrials equidistant overlapping
         inmemory draw fill)))
     \<and> handles (snd (generate_artificial_data w nTrials equidistant overlapping inmemory draw fill))
         = (if \<not> inmemory \<and> fill = None then Suc (next_id w) # handles w else handles w)"
proof -
  have "next_id w \<notin> set (handles w)"
    using assms by (auto simp: names_used_def list_all_iff)
  then show ?thesis
    by (simp add: figs_equal_world [OF assms] generate_artificial_data_world
        store_data_world [OF assms])
qed

theorem resources_released_witness:
  "names_used empty_world
   \<and> tmpfiles (snd (figs_equal (\<lambda>fig img. if fig = 1 then Some ValueError else None)
        (\<lambda>img. Inr [img]) (\<lambda>a b t. a = b) empty_world 0 1 None)) = []
   \<and> handles (snd (generate_artificial_data empty_world 2 True False False (\<lambda>i. 300)
        (Some OtherError))) = []"
  using resources_released [of empty_world "\<lambda>fig img. if fig = 1 then Some ValueError else None"
      "\<lambda>img. Inr [img]" "\<lambda>a b t. a = b" 0 1 None 2 True False False "\<lambda>i. 300" "Some OtherError"]
  by (simp add: names_used_def empty_world_def)

text \<open>
  C4, as stated, fails: a call with \<^verbatim>\<open>inmemory=False\<close> returns its object and the
  handle behind \<^verbatim>\<open>out.data\<close> is open.
\<close>

theorem read_handle_stays_open:
  "fst (generate_artificial_data empty_world 2 True False False (\<lambda>i. 300) None)
     = Ok [(0, 3000, 1000), (3000, 6000, 1000)]
   \<and> handles (snd (generate_artificial_data empty_world 2 True False False (\<lambda>i. 300) None)) = [1]"
  by (simp add: generate_artificial_data_def store_data_def with_h5file_def h5_open_def h5_close_def
      empty_world_def trialdefinition_def fill_rows_def trial_row_def offsets_def equiOffset_def
      shift_def t_size_def add_start_stop_def upt_rec numeral_2_eq_2 Let_def)


end
